theory Spec2Isabelle
  imports Complex_Main
begin

section \<open>The application shell: session and role router (App.js)\<close>

text \<open>
  The identity the login endpoint returns and the shell keeps in its \<open>user\<close> state.
  The fields are the ones the front-end reads; each record's fields carry a prefix,
  because several entities of the source share field names (\<open>id\<close>, \<open>title\<close>, ...).
\<close>

record user =
  u_id :: string
  u_name :: string
  u_role :: string
  u_email :: string
  u_profile_pic :: string

text \<open>
  What a \<open>Route\<close> element evaluates to: a page, or a \<open>Navigate\<close> to a path.
  \<open>NoMatch\<close> stands for a path none of the four routes has.
\<close>

datatype element =
    LoginPage
  | StudentDashboard user
  | TeacherDashboard user
  | AdminDashboard user
  | Navigate string
  | NoMatch

text \<open>
  The \<open>Routes\<close> block of \<open>App\<close>. The state \<open>user\<close> is \<open>null\<close> (here \<open>None\<close>) or
  an identity; \<open>user ? a : b\<close> and \<open>user && c\<close> test that it is not \<open>null\<close>.
\<close>

definition Routes :: "user option \<Rightarrow> string \<Rightarrow> element" where
  "Routes usr path =
    (if path = ''/'' then
       (case usr of
          Some u \<Rightarrow>
            (if u_role u = ''student'' then Navigate ''/student''
             else if u_role u = ''teacher'' then Navigate ''/teacher''
             else Navigate ''/admin'')
        | None \<Rightarrow> LoginPage)
     else if path = ''/student'' then
       (case usr of
          Some u \<Rightarrow> if u_role u = ''student'' then StudentDashboard u else Navigate ''/''
        | None \<Rightarrow> Navigate ''/'')
     else if path = ''/teacher'' then
       (case usr of
          Some u \<Rightarrow> if u_role u = ''teacher'' then TeacherDashboard u else Navigate ''/''
        | None \<Rightarrow> Navigate ''/'')
     else if path = ''/admin'' then
       (case usr of
          Some u \<Rightarrow> if u_role u = ''admin'' then AdminDashboard u else Navigate ''/''
        | None \<Rightarrow> Navigate ''/'')
     else NoMatch)"

subsection \<open>JSON texts of identities\<close>

text \<open>
  \<open>JSON.stringify\<close> and \<open>JSON.parse\<close> are the platform's. They are modelled here on
  the values the session holds: objects all of whose properties are strings, given as
  the list of their properties in insertion order. A string is a sequence of code units
  below 256, as everywhere in this theory, so no surrogate occurs.
\<close>

definition quote :: char where
  "quote = CHR 0x22"

definition backslash :: char where
  "backslash = CHR 0x5C"

definition hex_digit :: "nat \<Rightarrow> char" where
  "hex_digit d = ''0123456789abcdef'' ! d"

text \<open>
  \<open>QuoteJSONString\<close>: the quote, the backslash and the control characters are escaped,
  five of the latter by their short names and the others as \<open>u00XX\<close> after a backslash;
  every other code unit is copied.
\<close>

definition escape_char :: "char \<Rightarrow> string" where
  "escape_char c =
     (if c = CHR 0x08 then [backslash, CHR ''b'']
      else if c = CHR 0x09 then [backslash, CHR ''t'']
      else if c = CHR 0x0A then [backslash, CHR ''n'']
      else if c = CHR 0x0C then [backslash, CHR ''f'']
      else if c = CHR 0x0D then [backslash, CHR ''r'']
      else if c = quote then [backslash, quote]
      else if c = backslash then [backslash, backslash]
      else if of_char c < (32::nat) then
        [backslash, CHR ''u'', CHR ''0'', CHR ''0'',
         hex_digit (of_char c div 16), hex_digit (of_char c mod 16)]
      else [c])"

definition QuoteJSONString :: "string \<Rightarrow> string" where
  "QuoteJSONString s = quote # concat (map escape_char s) @ [quote]"

text \<open>
  \<open>SerializeJSONObject\<close> without indentation: the members \<open>key:value\<close>, both quoted, in
  the order of the properties, separated by commas and enclosed in braces.
\<close>

fun join_members :: "string list \<Rightarrow> string" where
  "join_members [] = []"
| "join_members [m] = m"
| "join_members (m # ms) = m @ '','' @ join_members ms"

definition SerializeJSONObject :: "(string \<times> string) list \<Rightarrow> string" where
  "SerializeJSONObject props =
     ''{'' @ join_members (map (\<lambda>(k, v). QuoteJSONString k @ '':'' @ QuoteJSONString v) props)
     @ ''}''"

text \<open>The identity as an object: its own properties, in the order of the record.\<close>

definition properties :: "user \<Rightarrow> (string \<times> string) list" where
  "properties u =
     [(''id'', u_id u), (''name'', u_name u), (''role'', u_role u), (''email'', u_email u),
      (''profile_pic'', u_profile_pic u)]"

definition JSON_stringify :: "user \<Rightarrow> string" where
  "JSON_stringify u = SerializeJSONObject (properties u)"

text \<open>
  \<open>JSON.parse\<close>, in two passes. The first splits the text into tokens, character by
  character: between tokens white space is skipped; inside a string a backslash starts
  an escape, of one character or of \<open>u\<close> and four hexadecimal digits, and a raw
  control character is an error. \<open>None\<close> is a text this reader does not accept:
  a text that is not JSON, or JSON with a value other than a string or with a code unit
  above 255.
\<close>

datatype token = LBrace | RBrace | Colon | Comma | StringToken string

datatype lexer_state =
    Between
  | InString string
  | AfterBackslash string
  | InUnicode string "nat list"

definition is_whitespace :: "char \<Rightarrow> bool" where
  "is_whitespace c = (c = CHR 0x20 \<or> c = CHR 0x09 \<or> c = CHR 0x0A \<or> c = CHR 0x0D)"

definition hex_value :: "char \<Rightarrow> nat option" where
  "hex_value c =
     (let n = of_char c :: nat
      in if 48 \<le> n \<and> n \<le> 57 then Some (n - 48)
         else if 97 \<le> n \<and> n \<le> 102 then Some (n - 87)
         else if 65 \<le> n \<and> n \<le> 70 then Some (n - 55)
         else None)"

text \<open>In the states of a string the characters read so far are kept in reverse.\<close>

fun tokens :: "lexer_state \<Rightarrow> string \<Rightarrow> token list option" where
  "tokens Between [] = Some []"
| "tokens (InString acc) [] = None"
| "tokens (AfterBackslash acc) [] = None"
| "tokens (InUnicode acc ds) [] = None"
| "tokens Between (c # cs) =
     (if c = CHR ''{'' then map_option ((#) LBrace) (tokens Between cs)
      else if c = CHR ''}'' then map_option ((#) RBrace) (tokens Between cs)
      else if c = CHR '':'' then map_option ((#) Colon) (tokens Between cs)
      else if c = CHR '','' then map_option ((#) Comma) (tokens Between cs)
      else if c = quote then tokens (InString []) cs
      else if is_whitespace c then tokens Between cs
      else None)"
| "tokens (InString acc) (c # cs) =
     (if c = quote then map_option ((#) (StringToken (rev acc))) (tokens Between cs)
      else if c = backslash then tokens (AfterBackslash acc) cs
      else if of_char c < (32::nat) then None
      else tokens (InString (c # acc)) cs)"
| "tokens (AfterBackslash acc) (c # cs) =
     (if c = quote then tokens (InString (quote # acc)) cs
      else if c = backslash then tokens (InString (backslash # acc)) cs
      else if c = CHR ''/'' then tokens (InString (CHR ''/'' # acc)) cs
      else if c = CHR ''b'' then tokens (InString (CHR 0x08 # acc)) cs
      else if c = CHR ''f'' then tokens (InString (CHR 0x0C # acc)) cs
      else if c = CHR ''n'' then tokens (InString (CHR 0x0A # acc)) cs
      else if c = CHR ''r'' then tokens (InString (CHR 0x0D # acc)) cs
      else if c = CHR ''t'' then tokens (InString (CHR 0x09 # acc)) cs
      else if c = CHR ''u'' then tokens (InUnicode acc []) cs
      else None)"
| "tokens (InUnicode acc ds) (c # cs) =
     (case hex_value c of
        None \<Rightarrow> None
      | Some d \<Rightarrow>
          if length ds < 3 then tokens (InUnicode acc (ds @ [d])) cs
          else
            let v = foldl (\<lambda>a h. 16 * a + h) 0 (ds @ [d])
            in if v < 256 then tokens (InString (char_of v # acc)) cs else None)"

text \<open>
  The second pass reads an object from the tokens: the members \<open>key : value\<close>,
  separated by commas, between braces.
\<close>

fun members :: "token list \<Rightarrow> (string \<times> string) list option" where
  "members [StringToken k, Colon, StringToken v, RBrace] = Some [(k, v)]"
| "members (StringToken k # Colon # StringToken v # Comma # ts) =
     map_option ((#) (k, v)) (members ts)"
| "members _ = None"

definition object_of_tokens :: "token list \<Rightarrow> (string \<times> string) list option" where
  "object_of_tokens ts =
     (if ts = [LBrace, RBrace] then Some []
      else case ts of LBrace # ms \<Rightarrow> members ms | _ \<Rightarrow> None)"

text \<open>
  Reading a property of the parsed object: of two members with one key the later one
  counts. The parsed object is an identity when it has the five properties.
\<close>

definition get_property :: "(string \<times> string) list \<Rightarrow> string \<Rightarrow> string option" where
  "get_property props k = map_of (rev props) k"

definition user_of_object :: "(string \<times> string) list \<Rightarrow> user option" where
  "user_of_object props =
     (case (get_property props ''id'', get_property props ''name'',
            get_property props ''role'', get_property props ''email'',
            get_property props ''profile_pic'') of
        (Some i, Some n, Some r, Some e, Some p) \<Rightarrow>
          Some \<lparr> u_id = i, u_name = n, u_role = r, u_email = e, u_profile_pic = p \<rparr>
      | _ \<Rightarrow> None)"

text \<open>
  \<open>JSON.parse\<close> throws a \<open>SyntaxError\<close> on a text that is not JSON, and on the JSON
  text of anything but an object with the five string properties it returns a value
  that the type of identities does not have. Both are the \<open>Inl\<close> of the result.
\<close>

datatype js_error = NotAnIdentity

definition JSON_parse :: "string \<Rightarrow> js_error + user" where
  "JSON_parse s =
     (case tokens Between s of
        None \<Rightarrow> Inl NotAnIdentity
      | Some ts \<Rightarrow>
          (case object_of_tokens ts of
             None \<Rightarrow> Inl NotAnIdentity
           | Some props \<Rightarrow>
               (case user_of_object props of
                  None \<Rightarrow> Inl NotAnIdentity
                | Some u \<Rightarrow> Inr u)))"

subsection \<open>The session in \<open>sessionStorage\<close>\<close>

text \<open>
  The shell's state is the \<open>user\<close> of \<open>useState\<close> together with the tab's
  \<open>sessionStorage\<close>, a map from keys to strings.
\<close>

record app_state =
  app_user :: "user option"
  sessionStorage :: "string \<rightharpoonup> string"

definition handleLogin :: "user \<Rightarrow> app_state \<Rightarrow> app_state" where
  "handleLogin userData st =
     st \<lparr> app_user := Some userData,
          sessionStorage := (sessionStorage st)(''user'' \<mapsto> JSON_stringify userData) \<rparr>"

definition handleLogout :: "app_state \<Rightarrow> app_state" where
  "handleLogout st =
     st \<lparr> app_user := None, sessionStorage := (sessionStorage st)(''user'' := None) \<rparr>"

text \<open>
  A page load starts \<open>App\<close> with \<open>user = null\<close> over the storage the tab already has;
  the mount effect then reads the key \<open>user\<close>. \<open>getItem\<close> yields \<open>null\<close> for a key
  that is absent, and \<open>if (storedUser)\<close> is also false for the empty string.
\<close>

definition App_init :: "(string \<rightharpoonup> string) \<Rightarrow> app_state" where
  "App_init storage = \<lparr> app_user = None, sessionStorage = storage \<rparr>"

definition useEffect_mount :: "app_state \<Rightarrow> js_error + app_state" where
  "useEffect_mount st =
     (case sessionStorage st ''user'' of
        None \<Rightarrow> Inr st
      | Some storedUser \<Rightarrow>
          if storedUser \<noteq> [] then
            (case JSON_parse storedUser of
               Inl e \<Rightarrow> Inl e
             | Inr u \<Rightarrow> Inr (st \<lparr> app_user := Some u \<rparr>))
          else Inr st)"

text \<open>The session a reload of the tab restores from a given storage.\<close>

definition restored_session :: "(string \<rightharpoonup> string) \<Rightarrow> js_error + user option" where
  "restored_session storage =
     (case useEffect_mount (App_init storage) of
        Inl e \<Rightarrow> Inl e
      | Inr st \<Rightarrow> Inr (app_user st))"

section \<open>JavaScript values as the dashboards meet them\<close>

subsection \<open>Integers of the grade form\<close>

text \<open>
  The result of \<open>parseInt\<close> and of adding two such results: an integer or \<open>NaN\<close>.
\<close>

datatype jsnum = JNaN | JInt int

fun js_add :: "jsnum \<Rightarrow> jsnum \<Rightarrow> jsnum" where
  "js_add (JInt a) (JInt b) = JInt (a + b)"
| "js_add _ _ = JNaN"

text \<open>\<open>x >= k\<close> for a numeric literal \<open>k\<close>: false whenever \<open>x\<close> is \<open>NaN\<close>.\<close>

fun js_ge :: "jsnum \<Rightarrow> int \<Rightarrow> bool" where
  "js_ge (JInt a) k = (k \<le> a)"
| "js_ge JNaN k = False"

subsection \<open>Numbers\<close>

text \<open>
  A JavaScript number: a finite IEEE 754 double, given by its exact value, one of the two
  infinities, or \<open>NaN\<close>. The two zeros are not told apart: nothing modelled here
  divides by a zero or prints its sign.
\<close>

datatype number = Finite rat | PosInfinity | NegInfinity | NaN

text \<open>
  Rounding an exact value to the nearest double, ties to the even significand. For
  \<open>x > 0\<close> with \<open>2^k \<le> x < 2^(k+1)\<close> the doubles around \<open>x\<close> are the multiples of
  \<open>2^(k-52)\<close>, and of \<open>2^-1074\<close> in the subnormal range; a result of \<open>2^1024\<close> or
  more is the infinity of the sign.
\<close>

fun log2_nat :: "nat \<Rightarrow> nat" where
  "log2_nat n = (if n < 2 then 0 else Suc (log2_nat (n div 2)))"

declare log2_nat.simps [simp del]

definition pow2 :: "int \<Rightarrow> rat" where
  "pow2 e = (if 0 \<le> e then 2 ^ nat e else 1 / 2 ^ nat (- e))"

text \<open>The \<open>k\<close> with \<open>2^k \<le> x < 2^(k+1)\<close>, for \<open>x > 0\<close>.\<close>

definition ilog2 :: "rat \<Rightarrow> int" where
  "ilog2 x =
     (if 1 \<le> x then int (log2_nat (nat \<lfloor>x\<rfloor>))
      else - int (log2_nat (nat \<lceil>1 / x\<rceil> - 1)) - 1)"

definition round_even :: "rat \<Rightarrow> int" where
  "round_even y =
     (let f = \<lfloor>y\<rfloor>; d = y - of_int f
      in if d < 1 / 2 then f
         else if 1 / 2 < d then f + 1
         else if even f then f else f + 1)"

definition round_double :: "rat \<Rightarrow> number" where
  "round_double x =
     (if x = 0 then Finite 0
      else
        let e = max (ilog2 \<bar>x\<bar> - 52) (- 1074);
            y = of_int (round_even (\<bar>x\<bar> / pow2 e)) * pow2 e
        in if 2 ^ 1024 \<le> y then (if 0 < x then PosInfinity else NegInfinity)
           else Finite (if 0 < x then y else - y))"

text \<open>\<open>a + b\<close> on numbers.\<close>

fun number_add :: "number \<Rightarrow> number \<Rightarrow> number" where
  "number_add (Finite a) (Finite b) = round_double (a + b)"
| "number_add NaN _ = NaN"
| "number_add _ NaN = NaN"
| "number_add PosInfinity NegInfinity = NaN"
| "number_add NegInfinity PosInfinity = NaN"
| "number_add PosInfinity _ = PosInfinity"
| "number_add _ PosInfinity = PosInfinity"
| "number_add NegInfinity _ = NegInfinity"
| "number_add _ NegInfinity = NegInfinity"

text \<open>
  \<open>a / n\<close> for the length \<open>n\<close> of an array, a non-negative integer below \<open>2^32\<close>
  and so a double; a quotient by the length 0 is \<open>NaN\<close> or an infinity.
\<close>

fun number_div_length :: "number \<Rightarrow> nat \<Rightarrow> number" where
  "number_div_length NaN n = NaN"
| "number_div_length PosInfinity n = PosInfinity"
| "number_div_length NegInfinity n = NegInfinity"
| "number_div_length (Finite a) n =
     (if n = 0 then (if a = 0 then NaN else if 0 < a then PosInfinity else NegInfinity)
      else round_double (a / of_nat n))"

subsection \<open>Form fields\<close>

text \<open>
  What a field of the grade form holds: the number copied from a grade record, or the
  text of a number input, which the browser keeps either empty or a valid decimal
  numeral. \<open>Numeric r\<close> is a numeral of exact value \<open>r\<close> in plain positional notation
  (a numeral with an exponent part is not represented), or the number \<open>r\<close> itself.
\<close>

datatype field = Blank | Numeric rat

text \<open>
  \<open>x < k\<close> and \<open>x > k\<close> against a numeric literal convert the field to a number first:
  the empty text converts to 0 and a numeral to the double nearest to its value. The
  literals compared with (0, 10, 40) are doubles.
\<close>

fun to_number :: "field \<Rightarrow> number" where
  "to_number Blank = Finite 0"
| "to_number (Numeric r) = round_double r"

fun number_lt :: "number \<Rightarrow> rat \<Rightarrow> bool" where
  "number_lt (Finite a) k = (a < k)"
| "number_lt NegInfinity k = True"
| "number_lt _ k = False"

fun number_gt :: "number \<Rightarrow> rat \<Rightarrow> bool" where
  "number_gt (Finite a) k = (k < a)"
| "number_gt PosInfinity k = True"
| "number_gt _ k = False"

definition js_lt :: "field \<Rightarrow> rat \<Rightarrow> bool" where
  "js_lt x k = number_lt (to_number x) k"

definition js_gt :: "field \<Rightarrow> rat \<Rightarrow> bool" where
  "js_gt x k = number_gt (to_number x) k"

text \<open>
  \<open>parseInt\<close> reads the integer part of the numeral and drops the fraction, and is
  \<open>NaN\<close> on the empty text.
\<close>

fun parseInt :: "field \<Rightarrow> jsnum" where
  "parseInt Blank = JNaN"
| "parseInt (Numeric r) = JInt (if 0 \<le> r then \<lfloor>r\<rfloor> else \<lceil>r\<rceil>)"

text \<open>The decimal digits of a natural number, as template literals print it.\<close>

definition digit_char :: "nat \<Rightarrow> char" where
  "digit_char d = ''0123456789'' ! d"

fun digits :: "nat \<Rightarrow> string" where
  "digits n = (if n < 10 then [digit_char n] else digits (n div 10) @ [digit_char (n mod 10)])"

declare digits.simps [simp del]

text \<open>\<open>Array.prototype.includes\<close>.\<close>

definition array_includes :: "'a list \<Rightarrow> 'a \<Rightarrow> bool" where
  "array_includes xs x = (x \<in> set xs)"

text \<open>
  \<open>[...new Set(xs)]\<close>: the elements are added to the set one by one, an element already
  there is ignored, and the spread lists them in insertion order.
\<close>

definition Set_add :: "'a list \<Rightarrow> 'a \<Rightarrow> 'a list" where
  "Set_add acc x = (if array_includes acc x then acc else acc @ [x])"

definition new_Set :: "'a list \<Rightarrow> 'a list" where
  "new_Set xs = foldl Set_add [] xs"

section \<open>Entities exchanged with the backend\<close>

record grade =
  g_id :: string
  g_student_name :: string
  g_subject :: string
  g_subject_code :: string
  g_part_a_marks :: int
  g_part_b_marks :: int
  g_total_marks :: int
  g_grade :: string

text \<open>
  The percentage of an attendance record is a number of the parsed response: a finite
  double, given by its exact value.
\<close>

record attendance =
  att_id :: string
  att_student_name :: string
  att_subject :: string
  att_subject_code :: string
  att_attended_classes :: int
  att_total_classes :: int
  att_percentage :: rat

record schedule =
  sch_id :: string
  sch_teacher_id :: string
  sch_subject :: string
  sch_subject_code :: string
  sch_day :: string
  sch_time_slot :: string
  sch_room :: string

record material =
  m_id :: string
  m_title :: string
  m_description :: string
  m_subject :: string
  m_subject_code :: string
  m_uploaded_by :: string
  m_uploaded_date :: string

record book =
  bk_id :: string
  bk_title :: string
  bk_author :: string
  bk_isbn :: string
  bk_available :: bool
  bk_available_copies :: int
  bk_total_copies :: int

record event =
  e_id :: string
  e_title :: string
  e_description :: string
  e_date :: string
  e_time :: string
  e_location :: string
  e_event_type :: string
  e_registration_required :: bool
  e_registered_users :: "string list"

record notice =
  n_id :: string
  n_title :: string
  n_content :: string
  n_priority :: string
  n_target_audience :: "string list"
  n_posted_by :: string
  n_posted_date :: string

record complaint =
  c_id :: string
  c_title :: string
  c_description :: string
  c_complaint_type :: string
  c_status :: string
  c_submitted_by :: string
  c_submitted_by_name :: string
  c_submitted_date :: string
  c_votes :: int
  c_voted_by :: "string list"
  c_response :: "string option"

record student =
  st_id :: string
  st_name :: string

section \<open>The Gateway: requests, responses and what a handler does to the outside\<close>

text \<open>The forms of the admin dashboard, which are request bodies as they stand.\<close>

record user_form =
  uf_id :: string
  uf_username :: string
  uf_password :: string
  uf_role :: string
  uf_name :: string
  uf_email :: string

record waiver_form =
  wf_student_id :: string
  wf_subject_code :: string
  wf_reason :: string

text \<open>
  The body of a request. \<open>GradeBody g a b t l\<close> is the object
  \<open>{...editingGrade, part_a_marks, part_b_marks, total_marks, grade}\<close>: the grade
  being edited with these four fields replaced. \<open>UserBody f p\<close> is the user form with
  the field \<open>profile_pic\<close> added.
\<close>

datatype body =
    GradeBody grade jsnum jsnum jsnum string
  | UserIdBody string
  | ResponseBody string
  | ComplaintBody complaint
  | EventBody event
  | NoticeBody notice
  | UserBody user_form string
  | WaiverBody waiver_form
  | NoBody

text \<open>A request to the backend; the path is the part of the URL after \<open>${API}\<close>.\<close>

datatype request =
    GET string
  | POST string body
  | PUT string body
  | DELETE string

text \<open>
  Everything a handler does besides updating its component's state, in the order in
  which it happens.
\<close>

datatype effect =
    Request request
  | toast_error string
  | toast_success string
  | console_error string

text \<open>How the promise of an axios call settles: rejected, or resolved with the data.\<close>

datatype 'a response = Rejected | Resolved 'a

section \<open>The teacher dashboard (TeacherDashboard.jsx)\<close>

record grade_form =
  part_a_marks :: field
  part_b_marks :: field

record teacher_state =
  t_grades :: "grade list"
  t_schedules :: "schedule list"
  t_complaints :: "complaint list"
  t_loading :: bool
  t_showGradeDialog :: bool
  t_editingGrade :: "grade option"
  t_gradeForm :: grade_form

text \<open>The initial values of the component's \<open>useState\<close> calls.\<close>

definition teacher_init :: teacher_state where
  "teacher_init =
     \<lparr> t_grades = [], t_schedules = [], t_complaints = [], t_loading = True,
       t_showGradeDialog = False, t_editingGrade = None,
       t_gradeForm = \<lparr> part_a_marks = Numeric 0, part_b_marks = Numeric 0 \<rparr> \<rparr>"

text \<open>How the three requests of one \<open>fetchData\<close> round settle.\<close>

record teacher_responses =
  t_gradesRes :: "grade list response"
  t_schedulesRes :: "schedule list response"
  t_complaintsRes :: "complaint list response"

text \<open>
  \<open>fetchData\<close>: the three requests are created before \<open>Promise.all\<close> is awaited, so
  all of them are issued; the destructuring and the setters run only when every promise
  resolved, the \<open>catch\<close> block otherwise, and \<open>finally\<close> in both cases.
\<close>

definition teacher_fetchData ::
  "user \<Rightarrow> teacher_responses \<Rightarrow> teacher_state \<Rightarrow> teacher_state \<times> effect list" where
  "teacher_fetchData usr res st =
    (let st1 = st \<lparr> t_loading := True \<rparr>;
         requests = [Request (GET ''/grades''),
                     Request (GET (''/schedules/teacher/'' @ u_id usr)),
                     Request (GET ''/complaints'')]
     in case (t_gradesRes res, t_schedulesRes res, t_complaintsRes res) of
          (Resolved gradesData, Resolved schedulesData, Resolved complaintsData) \<Rightarrow>
            (st1 \<lparr> t_grades := gradesData,
                   t_schedules := schedulesData,
                   t_complaints := filter (\<lambda>c. c_status c = ''pending'') complaintsData,
                   t_loading := False \<rparr>,
             requests)
        | _ \<Rightarrow>
            (st1 \<lparr> t_loading := False \<rparr>,
             requests @ [console_error ''Error fetching data:'',
                         toast_error ''Failed to load data'']))"

definition calculateGrade :: "jsnum \<Rightarrow> string" where
  "calculateGrade total' =
    (if js_ge total' 45 then ''A+''
     else if js_ge total' 40 then ''A''
     else if js_ge total' 35 then ''B+''
     else if js_ge total' 30 then ''B''
     else if js_ge total' 25 then ''C''
     else ''F'')"

definition handleEditGrade :: "grade \<Rightarrow> teacher_state \<Rightarrow> teacher_state" where
  "handleEditGrade g st =
     st \<lparr> t_editingGrade := Some g,
          t_gradeForm := \<lparr> part_a_marks = Numeric (of_int (g_part_a_marks g)),
                            part_b_marks = Numeric (of_int (g_part_b_marks g)) \<rparr>,
          t_showGradeDialog := True \<rparr>"

text \<open>
  \<open>handleUpdateGrade\<close>. \<open>putRes\<close> is how the \<open>PUT\<close> settles and \<open>res\<close> how the
  requests of the \<open>fetchData\<close> that follows a success settle. With no grade being edited
  the URL's \<open>editingGrade.id\<close> throws inside the \<open>try\<close>, before any request is made.
\<close>

definition handleUpdateGrade ::
  "user \<Rightarrow> unit response \<Rightarrow> teacher_responses \<Rightarrow> teacher_state
     \<Rightarrow> teacher_state \<times> effect list" where
  "handleUpdateGrade usr putRes res st =
    (let gradeForm = t_gradeForm st in
     if js_lt (part_a_marks gradeForm) 0 \<or> js_gt (part_a_marks gradeForm) 10 then
       (st, [toast_error ''Part A marks must be between 0 and 10''])
     else if js_lt (part_b_marks gradeForm) 0 \<or> js_gt (part_b_marks gradeForm) 40 then
       (st, [toast_error ''Part B marks must be between 0 and 40''])
     else
       let total' = js_add (parseInt (part_a_marks gradeForm)) (parseInt (part_b_marks gradeForm));
           grade' = calculateGrade total'
       in case t_editingGrade st of
            None \<Rightarrow>
              (st, [console_error ''Error updating grade:'',
                    toast_error ''Failed to update grade''])
          | Some editingGrade \<Rightarrow>
              let updatedGrade = GradeBody editingGrade
                                   (parseInt (part_a_marks gradeForm))
                                   (parseInt (part_b_marks gradeForm))
                                   total' grade';
                  put = Request (PUT (''/grades/'' @ g_id editingGrade) updatedGrade)
              in case putRes of
                   Rejected \<Rightarrow>
                     (st, [put, console_error ''Error updating grade:'',
                           toast_error ''Failed to update grade''])
                 | Resolved _ \<Rightarrow>
                     (let (st', effects) =
                            teacher_fetchData usr res (st \<lparr> t_showGradeDialog := False \<rparr>)
                      in (st', [put, toast_success ''Grade updated successfully!''] @ effects)))"

text \<open>
  \<open>handleResolveComplaint\<close>; \<open>answer\<close> is what \<open>prompt\<close> returns: \<open>null\<close> on cancel,
  the text otherwise, and \<open>!response\<close> also holds for the empty text.
\<close>

definition teacher_handleResolveComplaint ::
  "user \<Rightarrow> string option \<Rightarrow> unit response \<Rightarrow> teacher_responses \<Rightarrow> string \<Rightarrow> teacher_state
     \<Rightarrow> teacher_state \<times> effect list" where
  "teacher_handleResolveComplaint usr answer putRes res complaintId st =
    (case answer of
       None \<Rightarrow> (st, [])
     | Some response' \<Rightarrow>
         if response' = [] then (st, [])
         else
           let put = Request (PUT (''/complaints/'' @ complaintId @ ''/resolve'')
                                  (ResponseBody response'))
           in case putRes of
                Rejected \<Rightarrow>
                  (st, [put, console_error ''Error resolving complaint:'',
                        toast_error ''Failed to resolve complaint''])
              | Resolved _ \<Rightarrow>
                  (let (st', effects) = teacher_fetchData usr res st
                   in (st', [put, toast_success ''Complaint resolved!''] @ effects)))"

subsection \<open>Derived views\<close>

definition mySchedules :: "user \<Rightarrow> schedule list \<Rightarrow> schedule list" where
  "mySchedules usr schedules = filter (\<lambda>s. sch_teacher_id s = u_id usr) schedules"

definition mySubjects :: "user \<Rightarrow> schedule list \<Rightarrow> string list" where
  "mySubjects usr schedules = new_Set (map sch_subject_code (mySchedules usr schedules))"

definition myGrades :: "user \<Rightarrow> schedule list \<Rightarrow> grade list \<Rightarrow> grade list" where
  "myGrades usr schedules grades =
     filter (\<lambda>g. array_includes (mySubjects usr schedules) (g_subject_code g)) grades"

section \<open>The student dashboard (StudentDashboard.jsx)\<close>

record complaint_form =
  nc_title :: string
  nc_description :: string
  nc_type :: string

record student_state =
  s_grades :: "grade list"
  s_attendance :: "attendance list"
  s_materials :: "material list"
  s_library :: "book list"
  s_events :: "event list"
  s_complaints :: "complaint list"
  s_notices :: "notice list"
  s_loading :: bool
  s_showComplaintDialog :: bool
  s_newComplaint :: complaint_form

definition student_init :: student_state where
  "student_init =
     \<lparr> s_grades = [], s_attendance = [], s_materials = [], s_library = [], s_events = [],
       s_complaints = [], s_notices = [], s_loading = True, s_showComplaintDialog = False,
       s_newComplaint = \<lparr> nc_title = [], nc_description = [], nc_type = ''public'' \<rparr> \<rparr>"

record student_responses =
  s_gradesRes :: "grade list response"
  s_attendanceRes :: "attendance list response"
  s_materialsRes :: "material list response"
  s_libraryRes :: "book list response"
  s_eventsRes :: "event list response"
  s_complaintsRes :: "complaint list response"
  s_noticesRes :: "notice list response"

definition student_fetchData ::
  "user \<Rightarrow> student_responses \<Rightarrow> student_state \<Rightarrow> student_state \<times> effect list" where
  "student_fetchData usr res st =
    (let st1 = st \<lparr> s_loading := True \<rparr>;
         requests = [Request (GET (''/grades/'' @ u_id usr)),
                     Request (GET (''/attendance/'' @ u_id usr)),
                     Request (GET ''/materials''),
                     Request (GET ''/library''),
                     Request (GET ''/events''),
                     Request (GET ''/complaints''),
                     Request (GET ''/notices'')]
     in case (s_gradesRes res, s_attendanceRes res, s_materialsRes res, s_libraryRes res,
              s_eventsRes res, s_complaintsRes res, s_noticesRes res) of
          (Resolved gradesData, Resolved attendanceData, Resolved materialsData,
           Resolved libraryData, Resolved eventsData, Resolved complaintsData,
           Resolved noticesData) \<Rightarrow>
            (st1 \<lparr> s_grades := gradesData,
                   s_attendance := attendanceData,
                   s_materials := materialsData,
                   s_library := libraryData,
                   s_events := eventsData,
                   s_complaints := complaintsData,
                   s_notices := filter (\<lambda>n. array_includes (n_target_audience n) ''student''
                                           \<or> array_includes (n_target_audience n) ''all'')
                                  noticesData,
                   s_loading := False \<rparr>,
             requests)
        | _ \<Rightarrow>
            (st1 \<lparr> s_loading := False \<rparr>,
             requests @ [console_error ''Error fetching data:'',
                         toast_error ''Failed to load data'']))"

definition handleRegisterEvent ::
  "user \<Rightarrow> unit response \<Rightarrow> student_responses \<Rightarrow> string \<Rightarrow> student_state
     \<Rightarrow> student_state \<times> effect list" where
  "handleRegisterEvent usr postRes res eventId st =
    (let post = Request (POST (''/events/'' @ eventId @ ''/register'') (UserIdBody (u_id usr)))
     in case postRes of
          Rejected \<Rightarrow>
            (st, [post, console_error ''Error registering for event:'',
                  toast_error ''Failed to register for event''])
        | Resolved _ \<Rightarrow>
            (let (st', effects) = student_fetchData usr res st
             in (st', [post, toast_success ''Registered for event successfully!''] @ effects)))"

text \<open>The vote's response carries the message the success toast shows.\<close>

definition handleVoteComplaint ::
  "user \<Rightarrow> string response \<Rightarrow> student_responses \<Rightarrow> string \<Rightarrow> student_state
     \<Rightarrow> student_state \<times> effect list" where
  "handleVoteComplaint usr postRes res complaintId st =
    (let post = Request (POST (''/complaints/'' @ complaintId @ ''/vote'') (UserIdBody (u_id usr)))
     in case postRes of
          Rejected \<Rightarrow>
            (st, [post, console_error ''Error voting:'', toast_error ''Failed to vote''])
        | Resolved message \<Rightarrow>
            (let (st', effects) = student_fetchData usr res st
             in (st', [post, toast_success message] @ effects)))"

text \<open>
  \<open>handleSubmitComplaint\<close>; \<open>now\<close> is \<open>Date.now()\<close> and \<open>today\<close> the date part of
  \<open>new Date().toISOString()\<close>.
\<close>

definition handleSubmitComplaint ::
  "user \<Rightarrow> nat \<Rightarrow> string \<Rightarrow> unit response \<Rightarrow> student_responses \<Rightarrow> student_state
     \<Rightarrow> student_state \<times> effect list" where
  "handleSubmitComplaint usr now today postRes res st =
    (let newComplaint = s_newComplaint st in
     if nc_title newComplaint = [] \<or> nc_description newComplaint = [] then
       (st, [toast_error ''Please fill all fields''])
     else
       let complaint' =
             \<lparr> c_id = ''C'' @ digits now,
               c_title = nc_title newComplaint,
               c_description = nc_description newComplaint,
               c_complaint_type = nc_type newComplaint,
               c_status = ''pending'',
               c_submitted_by = u_id usr,
               c_submitted_by_name = u_name usr,
               c_submitted_date = today,
               c_votes = 0,
               c_voted_by = [],
               c_response = None \<rparr>;
           post = Request (POST ''/complaints'' (ComplaintBody complaint'))
       in case postRes of
            Rejected \<Rightarrow>
              (st, [post, console_error ''Error submitting complaint:'',
                    toast_error ''Failed to submit complaint''])
          | Resolved _ \<Rightarrow>
              (let (st', effects) =
                     student_fetchData usr res
                       (st \<lparr> s_showComplaintDialog := False,
                             s_newComplaint := \<lparr> nc_title = [], nc_description = [],
                                                   nc_type = ''public'' \<rparr> \<rparr>)
               in (st', [post, toast_success ''Complaint submitted successfully!''] @ effects)))"

definition student_resetDemoData ::
  "user \<Rightarrow> unit response \<Rightarrow> student_responses \<Rightarrow> student_state
     \<Rightarrow> student_state \<times> effect list" where
  "student_resetDemoData usr postRes res st =
    (let post = Request (POST ''/reset-demo-data'' NoBody)
     in case postRes of
          Rejected \<Rightarrow>
            (st, [post, console_error ''Error resetting data:'',
                  toast_error ''Failed to reset data''])
        | Resolved _ \<Rightarrow>
            (let (st', effects) = student_fetchData usr res st
             in (st', [post, toast_success ''Demo data reset successfully!''] @ effects)))"

subsection \<open>The average attendance\<close>

text \<open>
  \<open>Number.prototype.toFixed\<close> as ECMAScript defines it. For a finite number, taken at
  its exact value: the sign is split off, \<open>n\<close> is the integer nearest to \<open>x * 10^f\<close>
  (the larger one of two), its digits are padded with zeros to \<open>f + 1\<close> places and the
  point is put before the last \<open>f\<close>. From \<open>10^21\<close> on the source switches to the
  exponent notation of \<open>Number.prototype.toString\<close>, which is not modelled: the result
  is \<open>None\<close> there. A number that is not finite is printed by its name.
\<close>

definition pad_zeros :: "nat \<Rightarrow> string \<Rightarrow> string" where
  "pad_zeros f m = (if length m \<le> f then replicate (f + 1 - length m) (CHR ''0'') @ m else m)"

definition toFixed_finite :: "nat \<Rightarrow> rat \<Rightarrow> string option" where
  "toFixed_finite f x0 =
    (let s = (if x0 < 0 then ''-'' else []);
         x = (if x0 < 0 then - x0 else x0)
     in if x \<ge> 10 ^ 21 then None
        else
          let n = nat \<lfloor>x * 10 ^ f + 1 / 2\<rfloor>;
              m = digits n;
              m = (if f \<noteq> 0 then
                     let m = pad_zeros f m; k = length m
                     in take (k - f) m @ ''.'' @ drop (k - f) m
                   else m)
          in Some (s @ m))"

fun toFixed :: "nat \<Rightarrow> number \<Rightarrow> string option" where
  "toFixed f (Finite x) = toFixed_finite f x"
| "toFixed f PosInfinity = Some ''Infinity''"
| "toFixed f NegInfinity = Some ''-Infinity''"
| "toFixed f NaN = Some ''NaN''"

text \<open>What the summary card interpolates: the number 0, or the string of \<open>toFixed\<close>.\<close>

datatype jsvalue = JSNumber rat | JSString string

text \<open>
  \<open>avgAttendance\<close>. The percentage of a record is a number of the parsed response, a
  double; \<open>reduce\<close> adds the percentages one by one, starting from 0, and every sum
  and the quotient by the length are rounded to a double.
\<close>

definition avgAttendance :: "attendance list \<Rightarrow> jsvalue option" where
  "avgAttendance attendance =
    (if length attendance > 0
     then map_option JSString
            (toFixed 2
               (number_div_length
                  (foldl (\<lambda>sum a. number_add sum (Finite (att_percentage a))) (Finite 0)
                     attendance)
                  (length attendance)))
     else Some (JSNumber 0))"

subsection \<open>The events tab\<close>

text \<open>
  The button of an event card: its test id, the event its click registers for, whether it
  is disabled, and its label. \<open>None\<close> is a card without the button.
\<close>

record button =
  b_testid :: string
  b_onClick :: string
  b_disabled :: bool
  b_label :: string

definition register_button :: "user \<Rightarrow> event \<Rightarrow> button option" where
  "register_button usr ev =
    (if e_registration_required ev \<and> e_event_type ev \<noteq> ''holiday'' then
       Some \<lparr> b_testid = ''register-event-'' @ e_id ev,
              b_onClick = e_id ev,
              b_disabled = array_includes (e_registered_users ev) (u_id usr),
              b_label = (if array_includes (e_registered_users ev) (u_id usr)
                         then ''Registered'' else ''Register'') \<rparr>
     else None)"

section \<open>The admin dashboard (AdminDashboard.jsx)\<close>

record event_form =
  ef_title :: string
  ef_description :: string
  ef_date :: string
  ef_time :: string
  ef_location :: string
  ef_event_type :: string
  ef_registration_required :: bool

record notice_form =
  nf_title :: string
  nf_content :: string
  nf_priority :: string
  nf_target_audience :: "string list"

record admin_state =
  a_users :: "user list"
  a_students :: "student list"
  a_events :: "event list"
  a_complaints :: "complaint list"
  a_notices :: "notice list"
  a_attendance :: "attendance list"
  a_loading :: bool
  a_showEventDialog :: bool
  a_showNoticeDialog :: bool
  a_showUserDialog :: bool
  a_showWaiverDialog :: bool
  a_eventForm :: event_form
  a_noticeForm :: notice_form
  a_userForm :: user_form
  a_waiverForm :: waiver_form

definition empty_eventForm :: event_form where
  "empty_eventForm =
     \<lparr> ef_title = [], ef_description = [], ef_date = [], ef_time = [], ef_location = [],
       ef_event_type = ''academic'', ef_registration_required = True \<rparr>"

definition empty_noticeForm :: notice_form where
  "empty_noticeForm =
     \<lparr> nf_title = [], nf_content = [], nf_priority = ''medium'',
       nf_target_audience = [''all''] \<rparr>"

definition empty_userForm :: user_form where
  "empty_userForm =
     \<lparr> uf_id = [], uf_username = [], uf_password = [], uf_role = ''student'',
       uf_name = [], uf_email = [] \<rparr>"

definition empty_waiverForm :: waiver_form where
  "empty_waiverForm = \<lparr> wf_student_id = [], wf_subject_code = [], wf_reason = [] \<rparr>"


record admin_responses =
  a_usersRes :: "user list response"
  a_studentsRes :: "student list response"
  a_eventsRes :: "event list response"
  a_complaintsRes :: "complaint list response"
  a_noticesRes :: "notice list response"
  a_attendanceRes :: "attendance list response"

definition admin_fetchData ::
  "admin_responses \<Rightarrow> admin_state \<Rightarrow> admin_state \<times> effect list" where
  "admin_fetchData res st =
    (let st1 = st \<lparr> a_loading := True \<rparr>;
         requests = [Request (GET ''/users''),
                     Request (GET ''/students''),
                     Request (GET ''/events''),
                     Request (GET ''/complaints''),
                     Request (GET ''/notices''),
                     Request (GET ''/attendance'')]
     in case (a_usersRes res, a_studentsRes res, a_eventsRes res, a_complaintsRes res,
              a_noticesRes res, a_attendanceRes res) of
          (Resolved usersData, Resolved studentsData, Resolved eventsData,
           Resolved complaintsData, Resolved noticesData, Resolved attendanceData) \<Rightarrow>
            (st1 \<lparr> a_users := usersData,
                   a_students := studentsData,
                   a_events := eventsData,
                   a_complaints := complaintsData,
                   a_notices := noticesData,
                   a_attendance := attendanceData,
                   a_loading := False \<rparr>,
             requests)
        | _ \<Rightarrow>
            (st1 \<lparr> a_loading := False \<rparr>,
             requests @ [console_error ''Error fetching data:'',
                         toast_error ''Failed to load data'']))"

definition handleCreateEvent ::
  "nat \<Rightarrow> unit response \<Rightarrow> admin_responses \<Rightarrow> admin_state \<Rightarrow> admin_state \<times> effect list" where
  "handleCreateEvent now postRes res st =
    (let eventForm = a_eventForm st in
     if ef_title eventForm = [] \<or> ef_date eventForm = [] then
       (st, [toast_error ''Please fill required fields''])
     else
       let event' =
             \<lparr> e_id = ''E'' @ digits now,
               e_title = ef_title eventForm,
               e_description = ef_description eventForm,
               e_date = ef_date eventForm,
               e_time = ef_time eventForm,
               e_location = ef_location eventForm,
               e_event_type = ef_event_type eventForm,
               e_registration_required = ef_registration_required eventForm,
               e_registered_users = [] \<rparr>;
           post = Request (POST ''/events'' (EventBody event'))
       in case postRes of
            Rejected \<Rightarrow>
              (st, [post, console_error ''Error creating event:'',
                    toast_error ''Failed to create event''])
          | Resolved _ \<Rightarrow>
              (let (st', effects) =
                     admin_fetchData res
                       (st \<lparr> a_showEventDialog := False, a_eventForm := empty_eventForm \<rparr>)
               in (st', [post, toast_success ''Event created successfully!''] @ effects)))"

definition handleCreateNotice ::
  "user \<Rightarrow> nat \<Rightarrow> string \<Rightarrow> unit response \<Rightarrow> admin_responses \<Rightarrow> admin_state
     \<Rightarrow> admin_state \<times> effect list" where
  "handleCreateNotice usr now today postRes res st =
    (let noticeForm = a_noticeForm st in
     if nf_title noticeForm = [] \<or> nf_content noticeForm = [] then
       (st, [toast_error ''Please fill required fields''])
     else
       let notice' =
             \<lparr> n_id = ''N'' @ digits now,
               n_title = nf_title noticeForm,
               n_content = nf_content noticeForm,
               n_priority = nf_priority noticeForm,
               n_target_audience = nf_target_audience noticeForm,
               n_posted_by = u_name usr,
               n_posted_date = today \<rparr>;
           post = Request (POST ''/notices'' (NoticeBody notice'))
       in case postRes of
            Rejected \<Rightarrow>
              (st, [post, console_error ''Error creating notice:'',
                    toast_error ''Failed to post notice''])
          | Resolved _ \<Rightarrow>
              (let (st', effects) =
                     admin_fetchData res
                       (st \<lparr> a_showNoticeDialog := False, a_noticeForm := empty_noticeForm \<rparr>)
               in (st', [post, toast_success ''Notice posted successfully!''] @ effects)))"

definition handleCreateUser ::
  "unit response \<Rightarrow> admin_responses \<Rightarrow> admin_state \<Rightarrow> admin_state \<times> effect list" where
  "handleCreateUser postRes res st =
    (let userForm = a_userForm st in
     if uf_id userForm = [] \<or> uf_username userForm = [] \<or> uf_password userForm = []
        \<or> uf_name userForm = [] \<or> uf_email userForm = [] then
       (st, [toast_error ''Please fill all fields''])
     else
       let newUser = UserBody userForm
                       (''https://api.dicebear.com/7.x/avataaars/svg?seed='' @ uf_name userForm);
           post = Request (POST ''/users'' newUser)
       in case postRes of
            Rejected \<Rightarrow>
              (st, [post, console_error ''Error creating user:'',
                    toast_error ''Failed to create user''])
          | Resolved _ \<Rightarrow>
              (let (st', effects) =
                     admin_fetchData res
                       (st \<lparr> a_showUserDialog := False, a_userForm := empty_userForm \<rparr>)
               in (st', [post, toast_success ''User created successfully!''] @ effects)))"

text \<open>\<open>handleDeleteUser\<close>; \<open>confirmed\<close> is what \<open>window.confirm\<close> returns.\<close>

definition handleDeleteUser ::
  "bool \<Rightarrow> unit response \<Rightarrow> admin_responses \<Rightarrow> string \<Rightarrow> admin_state
     \<Rightarrow> admin_state \<times> effect list" where
  "handleDeleteUser confirmed deleteRes res userId st =
    (if \<not> confirmed then (st, [])
     else
       let delete = Request (DELETE (''/users/'' @ userId))
       in case deleteRes of
            Rejected \<Rightarrow>
              (st, [delete, console_error ''Error deleting user:'',
                    toast_error ''Failed to delete user''])
          | Resolved _ \<Rightarrow>
              (let (st', effects) = admin_fetchData res st
               in (st', [delete, toast_success ''User deleted successfully!''] @ effects)))"

definition handleDeleteNotice ::
  "unit response \<Rightarrow> admin_responses \<Rightarrow> string \<Rightarrow> admin_state \<Rightarrow> admin_state \<times> effect list" where
  "handleDeleteNotice deleteRes res noticeId st =
    (let delete = Request (DELETE (''/notices/'' @ noticeId))
     in case deleteRes of
          Rejected \<Rightarrow>
            (st, [delete, console_error ''Error deleting notice:'',
                  toast_error ''Failed to delete notice''])
        | Resolved _ \<Rightarrow>
            (let (st', effects) = admin_fetchData res st
             in (st', [delete, toast_success ''Notice deleted successfully!''] @ effects)))"

definition admin_handleResolveComplaint ::
  "string option \<Rightarrow> unit response \<Rightarrow> admin_responses \<Rightarrow> string \<Rightarrow> admin_state
     \<Rightarrow> admin_state \<times> effect list" where
  "admin_handleResolveComplaint answer putRes res complaintId st =
    (case answer of
       None \<Rightarrow> (st, [])
     | Some response' \<Rightarrow>
         if response' = [] then (st, [])
         else
           let put = Request (PUT (''/complaints/'' @ complaintId @ ''/resolve'')
                                  (ResponseBody response'))
           in case putRes of
                Rejected \<Rightarrow>
                  (st, [put, console_error ''Error resolving complaint:'',
                        toast_error ''Failed to resolve complaint''])
              | Resolved _ \<Rightarrow>
                  (let (st', effects) = admin_fetchData res st
                   in (st', [put, toast_success ''Complaint resolved!''] @ effects)))"

definition handleWaiveAttendance ::
  "unit response \<Rightarrow> admin_responses \<Rightarrow> admin_state \<Rightarrow> admin_state \<times> effect list" where
  "handleWaiveAttendance postRes res st =
    (let waiverForm = a_waiverForm st in
     if wf_student_id waiverForm = [] \<or> wf_subject_code waiverForm = []
        \<or> wf_reason waiverForm = [] then
       (st, [toast_error ''Please fill all fields''])
     else
       let post = Request (POST ''/attendance/waive'' (WaiverBody waiverForm))
       in case postRes of
            Rejected \<Rightarrow>
              (st, [post, console_error ''Error waiving attendance:'',
                    toast_error ''Failed to waive attendance''])
          | Resolved _ \<Rightarrow>
              (let (st', effects) =
                     admin_fetchData res
                       (st \<lparr> a_showWaiverDialog := False, a_waiverForm := empty_waiverForm \<rparr>)
               in (st', [post, toast_success ''Attendance waived successfully!''] @ effects)))"

definition admin_resetDemoData ::
  "unit response \<Rightarrow> admin_responses \<Rightarrow> admin_state \<Rightarrow> admin_state \<times> effect list" where
  "admin_resetDemoData postRes res st =
    (let post = Request (POST ''/reset-demo-data'' NoBody)
     in case postRes of
          Rejected \<Rightarrow>
            (st, [post, console_error ''Error resetting data:'',
                  toast_error ''Failed to reset data''])
        | Resolved _ \<Rightarrow>
            (let (st', effects) = admin_fetchData res st
             in (st', [post, toast_success ''Demo data reset successfully!''] @ effects)))"

section \<open>Notions the properties are stated with\<close>

text \<open>
  The number a decimal numeral denotes: an optional minus sign, the digits of the integer
  part and, after a point, the digits of the fraction.
\<close>

definition is_digit :: "char \<Rightarrow> bool" where
  "is_digit c = (c \<in> set ''0123456789'')"

definition digit_value :: "char \<Rightarrow> nat" where
  "digit_value c = of_char c - 48"

definition nat_of_digits :: "string \<Rightarrow> nat" where
  "nat_of_digits s = foldl (\<lambda>a c. 10 * a + digit_value c) 0 s"

definition decimal_value :: "string \<Rightarrow> rat" where
  "decimal_value s =
    (let neg = (s \<noteq> [] \<and> hd s = CHR ''-'');
         t = (if neg then tl s else s);
         ip = takeWhile (\<lambda>c. c \<noteq> CHR ''.'') t;
         fp = drop 1 (dropWhile (\<lambda>c. c \<noteq> CHR ''.'') t);
         v = of_nat (nat_of_digits ip) + of_nat (nat_of_digits fp) / 10 ^ length fp
     in if neg then - v else v)"

text \<open>The mirror image of a number, and a number outside an interval.\<close>

fun number_negate :: "number \<Rightarrow> number" where
  "number_negate (Finite a) = Finite (- a)"
| "number_negate PosInfinity = NegInfinity"
| "number_negate NegInfinity = PosInfinity"
| "number_negate NaN = NaN"

definition number_outside :: "number \<Rightarrow> rat \<Rightarrow> rat \<Rightarrow> bool" where
  "number_outside n lo hi = (number_lt n lo \<or> number_gt n hi)"

text \<open>The digits a numeral has after its point.\<close>

definition decimals :: "string \<Rightarrow> string" where
  "decimals s = drop 1 (dropWhile (\<lambda>c. c \<noteq> CHR ''.'') s)"

text \<open>The arithmetic mean of the percentages of a list of attendance records.\<close>

definition mean_percentage :: "attendance list \<Rightarrow> rat" where
  "mean_percentage xs = sum_list (map att_percentage xs) / of_nat (length xs)"

text \<open>
  The mean as the doubles give it: the percentages added one by one from 0 and the total
  divided by the count, every sum and the quotient rounded to a double.
\<close>

definition double_mean :: "attendance list \<Rightarrow> number" where
  "double_mean xs =
     number_div_length
       (foldl (\<lambda>sum a. number_add sum (Finite (att_percentage a))) (Finite 0) xs)
       (length xs)"




text \<open>One request of a round was rejected.\<close>

definition student_some_rejected :: "student_responses \<Rightarrow> bool" where
  "student_some_rejected res =
     (s_gradesRes res = Rejected \<or> s_attendanceRes res = Rejected
      \<or> s_materialsRes res = Rejected \<or> s_libraryRes res = Rejected
      \<or> s_eventsRes res = Rejected \<or> s_complaintsRes res = Rejected
      \<or> s_noticesRes res = Rejected)"



text \<open>
  The effects of a handler report an error: the last of them is an error toast and none
  is a success toast.
\<close>

fun is_error_toast :: "effect \<Rightarrow> bool" where
  "is_error_toast (toast_error msg) = True"
| "is_error_toast _ = False"

fun is_success_toast :: "effect \<Rightarrow> bool" where
  "is_success_toast (toast_success msg) = True"
| "is_success_toast _ = False"

definition reports_error :: "effect list \<Rightarrow> bool" where
  "reports_error effects =
     (effects \<noteq> [] \<and> is_error_toast (last effects)
      \<and> \<not> list_ex is_success_toast effects)"

text \<open>The requests among the effects of a handler.\<close>

definition requests_of :: "effect list \<Rightarrow> request list" where
  "requests_of effects = concat (map (\<lambda>e. case e of Request r \<Rightarrow> [r] | _ \<Rightarrow> []) effects)"

text \<open>
  What a failed mutation must leave behind: the component's state is the one before the
  handler ran, and if a request was made an error is reported.
\<close>

definition failure_preserves :: "'s \<Rightarrow> 's \<times> effect list \<Rightarrow> bool" where
  "failure_preserves st out =
     (fst out = st \<and> (requests_of (snd out) \<noteq> [] \<longrightarrow> reports_error (snd out)))"

section \<open>Sample data\<close>

definition alice :: user where
  "alice = \<lparr> u_id = ''S001'', u_name = ''Alice'', u_role = ''student'',
             u_email = ''alice@college.edu'', u_profile_pic = [] \<rparr>"

definition kumar :: user where
  "kumar = \<lparr> u_id = ''T001'', u_name = ''Kumar'', u_role = ''teacher'',
             u_email = ''kumar@college.edu'', u_profile_pic = [] \<rparr>"

definition guest :: user where
  "guest = \<lparr> u_id = ''X001'', u_name = ''Guest'', u_role = ''guest'',
             u_email = ''guest@college.edu'', u_profile_pic = [] \<rparr>"

definition maths_grade :: grade where
  "maths_grade =
     \<lparr> g_id = ''G1'', g_student_name = ''Alice'', g_subject = ''Maths'',
       g_subject_code = ''MA101'', g_part_a_marks = 8, g_part_b_marks = 30,
       g_total_marks = 38, g_grade = ''B+'' \<rparr>"

definition att :: "rat \<Rightarrow> attendance" where
  "att p = \<lparr> att_id = ''A1'', att_student_name = ''Alice'', att_subject = ''Maths'',
             att_subject_code = ''MA101'', att_attended_classes = 0,
             att_total_classes = 0, att_percentage = p \<rparr>"

text \<open>The doubles nearest to 91.67 and to 83.34, as a parsed response holds them.\<close>

definition pct_91_67 :: rat where
  "pct_91_67 = 6450702778766459 / 2 ^ 46"

definition pct_83_34 :: rat where
  "pct_83_34 = 5864531139766518 / 2 ^ 46"

definition holiday :: event where
  "holiday =
     \<lparr> e_id = ''E1'', e_title = ''Pongal'', e_description = [], e_date = ''2025-01-14'',
       e_time = [], e_location = [], e_event_type = ''holiday'',
       e_registration_required = True, e_registered_users = [] \<rparr>"

text \<open>A grade form with 11 marks for part A, over the grade being edited.\<close>

definition editing_state :: teacher_state where
  "editing_state =
     teacher_init \<lparr> t_loading := False, t_showGradeDialog := True,
                    t_editingGrade := Some maths_grade,
                    t_gradeForm := \<lparr> part_a_marks = Numeric 11, part_b_marks = Numeric 30 \<rparr> \<rparr>"

text \<open>A student dashboard after a first round that brought one grade.\<close>

definition loaded_state :: student_state where
  "loaded_state = student_init \<lparr> s_grades := [maths_grade], s_loading := False \<rparr>"

text \<open>A round in which the grades request is rejected and the others resolve.\<close>

definition grades_down :: student_responses where
  "grades_down =
     \<lparr> s_gradesRes = Rejected, s_attendanceRes = Resolved [], s_materialsRes = Resolved [],
       s_libraryRes = Resolved [], s_eventsRes = Resolved [], s_complaintsRes = Resolved [],
       s_noticesRes = Resolved [] \<rparr>"


text \<open>A complaint form that is filled in, in an open dialog.\<close>

definition complaining_state :: student_state where
  "complaining_state =
     loaded_state \<lparr> s_showComplaintDialog := True,
                     s_newComplaint := \<lparr> nc_title = ''Fan'', nc_description = ''Broken'',
                                           nc_type = ''private'' \<rparr> \<rparr>"

text \<open>A round of the teacher dashboard in which every request resolves, with no records.\<close>

definition empty_round :: teacher_responses where
  "empty_round =
     \<lparr> t_gradesRes = Resolved [], t_schedulesRes = Resolved [], t_complaintsRes = Resolved [] \<rparr>"

text \<open>A grade form with marks in range: 8 for part A and 30 for part B.\<close>

definition valid_state :: teacher_state where
  "valid_state =
     editing_state \<lparr> t_gradeForm := \<lparr> part_a_marks = Numeric 8, part_b_marks = Numeric 30 \<rparr> \<rparr>"

text \<open>Three schedule entries, two of them of the sample teacher and of one subject.\<close>

definition sample_schedules :: "schedule list" where
  "sample_schedules =
     [\<lparr> sch_id = ''1'', sch_teacher_id = ''T001'', sch_subject = ''Maths'',
        sch_subject_code = ''MA101'', sch_day = ''Monday'', sch_time_slot = ''9-10'',
        sch_room = ''R1'' \<rparr>,
      \<lparr> sch_id = ''2'', sch_teacher_id = ''T002'', sch_subject = ''Physics'',
        sch_subject_code = ''PH101'', sch_day = ''Monday'', sch_time_slot = ''10-11'',
        sch_room = ''R2'' \<rparr>,
      \<lparr> sch_id = ''3'', sch_teacher_id = ''T001'', sch_subject = ''Maths'',
        sch_subject_code = ''MA101'', sch_day = ''Friday'', sch_time_slot = ''9-10'',
        sch_room = ''R1'' \<rparr>]"

definition physics_grade :: grade where
  "physics_grade =
     \<lparr> g_id = ''G2'', g_student_name = ''Alice'', g_subject = ''Physics'',
       g_subject_code = ''PH101'', g_part_a_marks = 9, g_part_b_marks = 36,
       g_total_marks = 45, g_grade = ''A+'' \<rparr>"

text \<open>The value of the numeral 10.0000000000000001, and a grade form with it for part A.\<close>

definition near_ten :: rat where
  "near_ten = 10 + 1 / 10 ^ 16"

definition near_ten_state :: teacher_state where
  "near_ten_state =
     editing_state \<lparr> t_gradeForm := \<lparr> part_a_marks = Numeric near_ten,
                                        part_b_marks = Numeric 30 \<rparr> \<rparr>"

text \<open>The doubles the sum and the mean of these two pass through.\<close>

definition double_175_01 :: rat where
  "double_175_01 = 6157616959266488 / 2 ^ 45"

definition double_87_505 :: rat where
  "double_87_505 = 6157616959266488 / 2 ^ 46"

section \<open>Decimal numerals\<close>

lemma digit_cases:
  assumes "d < (10::nat)"
  obtains "d = 0" | "d = 1" | "d = 2" | "d = 3" | "d = 4"
        | "d = 5" | "d = 6" | "d = 7" | "d = 8" | "d = 9"
  using assms by atomize_elim presburger

lemma digit_value_char: "d < 10 \<Longrightarrow> digit_value (digit_char d) = d"
  by (erule digit_cases) (simp_all add: digit_value_def digit_char_def)

lemma is_digit_char: "d < 10 \<Longrightarrow> is_digit (digit_char d)"
  by (erule digit_cases) (simp_all add: is_digit_def digit_char_def)

lemma is_digit_not_point: "is_digit c \<Longrightarrow> c \<noteq> CHR ''.'' \<and> c \<noteq> CHR ''-''"
  by (auto simp: is_digit_def)

lemma nat_of_digits_snoc: "nat_of_digits (xs @ [c]) = 10 * nat_of_digits xs + digit_value c"
  by (simp add: nat_of_digits_def)

lemma nat_of_digits_digits: "nat_of_digits (digits n) = n"
proof (induction n rule: digits.induct)
  case (1 n)
  show ?case
  proof (cases "n < 10")
    case True
    then show ?thesis
      by (simp add: digits.simps [of n] nat_of_digits_def digit_value_char)
  next
    case False
    with 1 show ?thesis
      by (simp add: digits.simps [of n] nat_of_digits_snoc digit_value_char)
  qed
qed

lemma digits_is_digit: "c \<in> set (digits n) \<Longrightarrow> is_digit c"
proof (induction n rule: digits.induct)
  case (1 n)
  show ?case
  proof (cases "n < 10")
    case True
    with 1(2) show ?thesis by (simp add: digits.simps [of n] is_digit_char)
  next
    case False
    with 1 show ?thesis by (auto simp: digits.simps [of n] is_digit_char)
  qed
qed

lemma digits_nonempty: "digits n \<noteq> []"
  by (subst digits.simps) simp

lemma nat_of_digits_append:
  "nat_of_digits (a @ b) = nat_of_digits a * 10 ^ length b + nat_of_digits b"
proof (induction b rule: rev_induct)
  case Nil
  show ?case by (simp add: nat_of_digits_def)
next
  case (snoc c b)
  have "nat_of_digits (a @ b @ [c]) = 10 * nat_of_digits (a @ b) + digit_value c"
    using nat_of_digits_snoc [of "a @ b" c] by simp
  with snoc show ?case by (simp add: nat_of_digits_snoc algebra_simps)
qed

lemma nat_of_digits_zeros: "nat_of_digits (replicate z (CHR ''0'')) = 0"
  by (induction z) (simp_all add: nat_of_digits_def digit_value_def)

lemma round_half_up_near:
  fixes y :: rat
  assumes "0 \<le> y"
  shows "\<bar>of_nat (nat \<lfloor>y + 1 / 2\<rfloor>) - y\<bar> \<le> 1 / 2"
proof -
  have nonneg: "0 \<le> \<lfloor>y + 1 / 2\<rfloor>" using assms by simp
  have "of_int \<lfloor>y + 1 / 2\<rfloor> \<le> y + 1 / 2" by (rule of_int_floor_le)
  moreover have "y + 1 / 2 < of_int \<lfloor>y + 1 / 2\<rfloor> + 1"
    using floor_correct [of "y + 1 / 2"] by simp
  moreover have "(of_nat (nat \<lfloor>y + 1 / 2\<rfloor>) :: rat) = of_int \<lfloor>y + 1 / 2\<rfloor>"
    using nonneg by simp
  ultimately show ?thesis by linarith
qed

lemma decimal_value_point:
  assumes ip: "ip \<noteq> []" "\<forall>c \<in> set ip. is_digit c" and fp: "\<forall>c \<in> set fp. is_digit c"
  shows "decimal_value (ip @ ''.'' @ fp) = of_nat (nat_of_digits (ip @ fp)) / 10 ^ length fp"
    and "decimal_value (''-'' @ ip @ ''.'' @ fp)
           = - (of_nat (nat_of_digits (ip @ fp)) / 10 ^ length fp)"
proof -
  have nodot: "\<forall>c \<in> set ip. c \<noteq> CHR ''.''" using ip(2) is_digit_not_point by blast
  have hd: "hd ip \<noteq> CHR ''-''" using ip is_digit_not_point by (cases ip) auto
  have tw: "takeWhile (\<lambda>c. c \<noteq> CHR ''.'') (ip @ ''.'' @ fp) = ip"
    using nodot by simp
  have dw: "dropWhile (\<lambda>c. c \<noteq> CHR ''.'') (ip @ ''.'' @ fp) = ''.'' @ fp"
    using nodot by simp
  have v: "of_nat (nat_of_digits ip) + of_nat (nat_of_digits fp) / 10 ^ length fp
            = (of_nat (nat_of_digits (ip @ fp)) / 10 ^ length fp :: rat)"
    by (simp add: nat_of_digits_append field_simps)
  show "decimal_value (ip @ ''.'' @ fp) = of_nat (nat_of_digits (ip @ fp)) / 10 ^ length fp"
    using ip(1) hd tw dw v by (simp add: decimal_value_def Let_def hd_append)
  show "decimal_value (''-'' @ ip @ ''.'' @ fp)
          = - (of_nat (nat_of_digits (ip @ fp)) / 10 ^ length fp)"
    using tw dw v by (simp add: decimal_value_def Let_def)
qed

lemma pad_zeros_digits:
  "3 \<le> length (pad_zeros 2 (digits n))"
  "\<forall>c \<in> set (pad_zeros 2 (digits n)). is_digit c"
  "nat_of_digits (pad_zeros 2 (digits n)) = n"
proof -
  show "3 \<le> length (pad_zeros 2 (digits n))" by (auto simp: pad_zeros_def)
  have z: "is_digit (CHR ''0'')" by (simp add: is_digit_def)
  show "\<forall>c \<in> set (pad_zeros 2 (digits n)). is_digit c"
    using z digits_is_digit by (auto simp: pad_zeros_def)
  show "nat_of_digits (pad_zeros 2 (digits n)) = n"
    by (simp add: pad_zeros_def nat_of_digits_append nat_of_digits_zeros nat_of_digits_digits)
qed

lemma toFixed_2_unfold:
  "toFixed_finite 2 x =
     (if \<bar>x\<bar> \<ge> 10 ^ 21 then None
      else Some ((if x < 0 then ''-'' else [])
                 @ take (length (pad_zeros 2 (digits (nat \<lfloor>\<bar>x\<bar> * 100 + 1 / 2\<rfloor>))) - 2)
                     (pad_zeros 2 (digits (nat \<lfloor>\<bar>x\<bar> * 100 + 1 / 2\<rfloor>)))
                 @ ''.''
                 @ drop (length (pad_zeros 2 (digits (nat \<lfloor>\<bar>x\<bar> * 100 + 1 / 2\<rfloor>))) - 2)
                     (pad_zeros 2 (digits (nat \<lfloor>\<bar>x\<bar> * 100 + 1 / 2\<rfloor>)))))"
  by (simp add: toFixed_finite_def Let_def abs_if)

lemma toFixed_2_value:
  assumes "\<bar>x\<bar> < 10 ^ 21"
  shows "\<exists>s. toFixed_finite 2 x = Some s
           \<and> decimal_value s
               = (if x < 0 then - 1 else 1) * of_nat (nat \<lfloor>\<bar>x\<bar> * 100 + 1 / 2\<rfloor>) / 100
           \<and> \<bar>decimal_value s - x\<bar> \<le> 1 / 200
           \<and> length (decimals s) = 2"
proof -
  define n where "n = nat \<lfloor>\<bar>x\<bar> * 100 + 1 / 2\<rfloor>"
  define m where "m = pad_zeros 2 (digits n)"
  define ip where "ip = take (length m - 2) m"
  define fp where "fp = drop (length m - 2) m"
  define s where "s = (if x < 0 then ''-'' else []) @ ip @ ''.'' @ fp"
  have len: "3 \<le> length m" and dig: "\<forall>c \<in> set m. is_digit c" and val: "nat_of_digits m = n"
    unfolding m_def by (rule pad_zeros_digits)+
  have ip: "ip \<noteq> []" "\<forall>c \<in> set ip. is_digit c"
    using len dig unfolding ip_def by (auto dest: in_set_takeD)
  have fp: "\<forall>c \<in> set fp. is_digit c" "length fp = 2"
    using len dig unfolding fp_def by (auto dest: in_set_dropD)
  have cat: "ip @ fp = m" by (simp add: ip_def fp_def)
  have tf: "toFixed_finite 2 x = Some s"
    using assms by (simp add: toFixed_2_unfold s_def ip_def fp_def m_def n_def)
  have dv: "decimal_value s = (if x < 0 then - 1 else 1) * of_nat n / 100"
    using decimal_value_point [OF ip fp(1)] fp(2) cat val by (simp add: s_def)
  have near: "\<bar>of_nat n - \<bar>x\<bar> * 100\<bar> \<le> 1 / 2"
    unfolding n_def by (rule round_half_up_near) simp
  have close: "\<bar>decimal_value s - x\<bar> \<le> 1 / 200"
    using near by (cases "x < 0") (simp_all add: dv abs_if field_simps split: if_splits)
  have nodot: "\<forall>c \<in> set ip. c \<noteq> CHR ''.''" using ip(2) is_digit_not_point by blast
  have "dropWhile (\<lambda>c. c \<noteq> CHR ''.'') s = ''.'' @ fp"
    using nodot by (simp add: s_def)
  then have two: "length (decimals s) = 2"
    using fp(2) by (simp add: decimals_def)
  from tf dv close two show ?thesis unfolding n_def by blast
qed

lemma digits_8000: "digits 8000 = ''8000''"
  by (simp add: digits.simps [of 8000] digits.simps [of 800] digits.simps [of 80]
        digits.simps [of 8] digit_char_def)

lemma round_8000: "nat \<lfloor>\<bar>80::rat\<bar> * 100 + 1 / 2\<rfloor> = 8000"
proof -
  have "\<lfloor>(80::rat) * 100 + 1 / 2\<rfloor> = 8000" by (rule floor_unique) simp_all
  then show ?thesis by simp
qed

lemma toFixed_2_80: "toFixed_finite 2 80 = Some ''80.00''"
  unfolding toFixed_2_unfold round_8000 by (simp add: digits_8000 pad_zeros_def)

section \<open>Sets as arrays\<close>

lemma new_Set_set: "set (foldl Set_add acc xs) = set acc \<union> set xs"
  by (induction xs arbitrary: acc) (auto simp: Set_add_def array_includes_def)

lemma new_Set_distinct: "distinct acc \<Longrightarrow> distinct (foldl Set_add acc xs)"
  by (induction xs arbitrary: acc) (auto simp: Set_add_def array_includes_def)

section \<open>Rounding to doubles\<close>

lemma log2_nat_bounds: "0 < n \<Longrightarrow> 2 ^ log2_nat n \<le> n \<and> n < 2 ^ Suc (log2_nat n)"
proof (induction n rule: log2_nat.induct)
  case (1 n)
  show ?case
  proof (cases "n < 2")
    case True
    with 1(2) show ?thesis by (simp add: log2_nat.simps [of n])
  next
    case False
    then have "0 < n div 2" by simp
    with 1(1) False
    have ih: "2 ^ log2_nat (n div 2) \<le> n div 2" "n div 2 < 2 ^ Suc (log2_nat (n div 2))"
      by simp_all
    from ih(1) have "2 * 2 ^ log2_nat (n div 2) \<le> n" by linarith
    moreover from ih(2) have "n < 2 * 2 ^ Suc (log2_nat (n div 2))" by linarith
    ultimately show ?thesis using False by (simp add: log2_nat.simps [of n])
  qed
qed

lemma log2_nat_unique:
  assumes "2 ^ k \<le> n" and "n < 2 ^ Suc k"
  shows "log2_nat n = k"
proof -
  have pos: "0 < n" using assms(1) by (metis gr0I not_less zero_less_numeral zero_less_power)
  note b = log2_nat_bounds [OF pos]
  have "(2::nat) ^ k < 2 ^ Suc (log2_nat n)" using assms(1) b by linarith
  then have le1: "k \<le> log2_nat n"
    using power_less_imp_less_exp [of "2::nat" k "Suc (log2_nat n)"] by simp
  have "(2::nat) ^ log2_nat n < 2 ^ Suc k" using assms(2) b by linarith
  then have le2: "log2_nat n \<le> k"
    using power_less_imp_less_exp [of "2::nat" "log2_nat n" "Suc k"] by simp
  from le1 le2 show ?thesis by simp
qed

lemma ilog2_unique:
  assumes "2 ^ k \<le> x" and "x < 2 ^ Suc k"
  shows "ilog2 x = int k"
proof -
  have one: "1 \<le> x" using assms(1) by (meson one_le_numeral one_le_power order_trans)
  have lo: "(2::int) ^ k \<le> \<lfloor>x\<rfloor>" using assms(1) by (simp add: le_floor_iff)
  have hi: "\<lfloor>x\<rfloor> < (2::int) ^ Suc k" using assms(2) by (simp add: floor_less_iff)
  have nn: "0 \<le> \<lfloor>x\<rfloor>" using one by simp
  have "2 ^ k \<le> nat \<lfloor>x\<rfloor>" using lo nn by (simp add: nat_le_iff)
  moreover have "nat \<lfloor>x\<rfloor> < 2 ^ Suc k" using hi nn by (simp add: nat_less_iff)
  ultimately have "log2_nat (nat \<lfloor>x\<rfloor>) = k" by (rule log2_nat_unique)
  with one show ?thesis by (simp add: ilog2_def)
qed

lemma round_even_nearest:
  assumes "\<bar>y - of_int m\<bar> < 1 / 2"
  shows "round_even y = m"
proof -
  have f: "of_int \<lfloor>y\<rfloor> \<le> y" "y < of_int \<lfloor>y\<rfloor> + 1"
    using floor_correct [of y] by simp_all
  from assms have a: "y - of_int m < 1 / 2" "of_int m - y < 1 / 2" by linarith+
  have cases: "\<lfloor>y\<rfloor> = m \<or> \<lfloor>y\<rfloor> = m - 1"
  proof -
    have "of_int m - 1 < (of_int \<lfloor>y\<rfloor> :: rat) + 1" using a f by linarith
    then have "of_int (m - 1) < (of_int (\<lfloor>y\<rfloor> + 1) :: rat)" by simp
    then have l: "m - 1 < \<lfloor>y\<rfloor> + 1" by (simp only: of_int_less_iff)
    have "(of_int \<lfloor>y\<rfloor> :: rat) < of_int m + 1" using a f by linarith
    then have "(of_int \<lfloor>y\<rfloor> :: rat) < of_int (m + 1)" by simp
    then have u: "\<lfloor>y\<rfloor> < m + 1" by (simp only: of_int_less_iff)
    from l u show ?thesis by linarith
  qed
  then show ?thesis
  proof
    assume e: "\<lfloor>y\<rfloor> = m"
    then have "y - of_int \<lfloor>y\<rfloor> < 1 / 2" using a by simp
    then show ?thesis using e by (simp add: round_even_def Let_def)
  next
    assume e: "\<lfloor>y\<rfloor> = m - 1"
    then have "(of_int \<lfloor>y\<rfloor> :: rat) = of_int m - 1" by simp
    then have "1 / 2 < y - of_int \<lfloor>y\<rfloor>" using a by linarith
    then show ?thesis using e by (simp add: round_even_def Let_def)
  qed
qed

lemma round_even_ge:
  assumes "of_int m \<le> y"
  shows "m \<le> round_even y"
proof -
  have "m \<le> \<lfloor>y\<rfloor>" using assms by (simp add: le_floor_iff)
  then show ?thesis by (simp add: round_even_def Let_def)
qed

lemma pow2_pos: "0 < pow2 e"
  by (simp add: pow2_def)

text \<open>
  Rounding a value of at least 1: in the binade \<open>2^k \<le> x < 2^(k+1)\<close> the doubles
  are the multiples of \<open>2^(k-52)\<close>.
\<close>

lemma round_double_binade:
  assumes "2 ^ k \<le> x" and "x < 2 ^ Suc k"
    and "round_even (x / pow2 (int k - 52)) = m"
    and "of_int m * pow2 (int k - 52) < 2 ^ 1024"
  shows "round_double x = Finite (of_int m * pow2 (int k - 52))"
proof -
  have pos: "0 < x" using assms(1) by (meson less_le_trans zero_less_numeral zero_less_power)
  have il: "ilog2 \<bar>x\<bar> = int k" using pos assms(1,2) by (simp add: ilog2_unique)
  have e: "max (ilog2 \<bar>x\<bar> - 52) (- 1074) = int k - 52" using il by simp
  have r: "round_even (\<bar>x\<bar> / pow2 (int k - 52)) = m" using pos assms(3) by simp
  show ?thesis using pos assms(4) unfolding round_double_def e Let_def r by simp
qed

lemma round_double_nearest:
  assumes "2 ^ k \<le> x" and "x < 2 ^ Suc k"
    and "\<bar>x / pow2 (int k - 52) - of_int m\<bar> < 1 / 2"
    and "of_int m * pow2 (int k - 52) < 2 ^ 1024"
  shows "round_double x = Finite (of_int m * pow2 (int k - 52))"
  using assms(1,2) round_even_nearest [OF assms(3)] assms(4) by (rule round_double_binade)

lemma round_even_gt:
  assumes "of_int m + 1 / 2 < y"
  shows "m + 1 \<le> round_even y"
proof -
  have f: "m \<le> \<lfloor>y\<rfloor>" using assms by (simp add: le_floor_iff)
  show ?thesis
  proof (cases "\<lfloor>y\<rfloor> = m")
    case True
    then have "1 / 2 < y - of_int \<lfloor>y\<rfloor>" using assms by simp
    then show ?thesis using True by (simp add: round_even_def Let_def)
  next
    case False
    with f have "m + 1 \<le> \<lfloor>y\<rfloor>" by simp
    then show ?thesis by (simp add: round_even_def Let_def)
  qed
qed

text \<open>Natural numbers below \<open>2^53\<close> are doubles.\<close>

lemma round_double_of_nat:
  assumes "n < 2 ^ 53"
  shows "round_double (of_nat n) = Finite (of_nat n)"
proof (cases "n = 0")
  case True
  then show ?thesis by (simp add: round_double_def)
next
  case False
  then have npos: "0 < n" by simp
  define k where "k = log2_nat n"
  note b = log2_nat_bounds [OF npos, folded k_def]
  have "(2::nat) ^ k < 2 ^ 53" using b assms by linarith
  then have k52: "k \<le> 52" using power_less_imp_less_exp [of "2::nat" k 53] by simp
  have lo: "(2::rat) ^ k \<le> of_nat n"
  proof -
    from b have "(of_nat (2 ^ k) :: rat) \<le> of_nat n" by (simp only: of_nat_le_iff)
    then show ?thesis by (simp only: of_nat_power of_nat_numeral)
  qed
  have hi: "(of_nat n :: rat) < 2 ^ Suc k"
  proof -
    from b have "(of_nat n :: rat) < of_nat (2 ^ Suc k)" by (simp only: of_nat_less_iff)
    then show ?thesis by (simp only: of_nat_power of_nat_numeral)
  qed
  have p: "pow2 (int k - 52) = 1 / 2 ^ (52 - k)"
    using k52 by (cases "k = 52") (simp_all add: pow2_def nat_diff_distrib')
  have q: "of_nat n / pow2 (int k - 52) = (of_int (int (n * 2 ^ (52 - k))) :: rat)"
    by (simp add: p)
  have r: "round_even (of_nat n / pow2 (int k - 52)) = int (n * 2 ^ (52 - k))"
    unfolding q by (rule round_even_nearest) simp
  have v: "(of_int (int (n * 2 ^ (52 - k))) :: rat) * pow2 (int k - 52) = of_nat n"
    by (simp add: p)
  have "(of_nat n :: rat) < of_nat (2 ^ 53)" using assms by (simp only: of_nat_less_iff)
  then have "(of_nat n :: rat) < 2 ^ 53" by (simp only: of_nat_power of_nat_numeral)
  moreover have "(2::rat) ^ 53 < 2 ^ 1024" by (rule power_strict_increasing) simp_all
  ultimately have big: "(of_int (int (n * 2 ^ (52 - k))) :: rat) * pow2 (int k - 52) < 2 ^ 1024"
    unfolding v by linarith
  from round_double_binade [OF lo hi r big] show ?thesis unfolding v .
qed

text \<open>Rounding is symmetric in the sign.\<close>

lemma round_double_minus: "round_double (- x) = number_negate (round_double x)"
  by (cases "x = 0"; cases "0 < x") (simp_all add: round_double_def Let_def)

text \<open>
  A value of at least 1 does not round below a natural number (up to \<open>2^52\<close>) that it
  is not below.
\<close>

lemma round_double_ge:
  assumes "1 \<le> x" and "of_nat c \<le> x" and "c \<le> 2 ^ 52"
  shows "round_double x = PosInfinity \<or> (\<exists>y. round_double x = Finite y \<and> of_nat c \<le> y)"
proof -
  define n where "n = nat \<lfloor>x\<rfloor>"
  define k where "k = log2_nat n"
  have npos: "0 < n" using assms(1) by (simp add: n_def)
  note b = log2_nat_bounds [OF npos, folded k_def]
  have nx: "of_nat n \<le> x" "x < of_nat n + 1"
    using assms(1) floor_correct [of x] by (simp_all add: n_def)
  have lo: "2 ^ k \<le> x"
  proof -
    from b have "(of_nat (2 ^ k) :: rat) \<le> of_nat n" by (simp only: of_nat_le_iff)
    then have "(2::rat) ^ k \<le> of_nat n" by (simp only: of_nat_power of_nat_numeral)
    with nx show ?thesis by linarith
  qed
  have hi: "x < 2 ^ Suc k"
  proof -
    from b have "Suc n \<le> 2 ^ Suc k" by simp
    then have "(of_nat (Suc n) :: rat) \<le> of_nat (2 ^ Suc k)" by (simp only: of_nat_le_iff)
    then have "(of_nat n :: rat) + 1 \<le> 2 ^ Suc k"
      by (simp only: of_nat_power of_nat_numeral of_nat_Suc)
    with nx show ?thesis by linarith
  qed
  have pos: "0 < x" using assms(1) by simp
  have il: "ilog2 \<bar>x\<bar> = int k" using pos lo hi by (simp add: ilog2_unique)
  define e where "e = int k - 52"
  have em: "max (ilog2 \<bar>x\<bar> - 52) (- 1074) = e" using il by (simp add: e_def)
  define y where "y = of_int (round_even (\<bar>x\<bar> / pow2 e)) * pow2 e"
  have rd: "round_double x = (if 2 ^ 1024 \<le> y then PosInfinity else Finite y)"
    using pos unfolding round_double_def em Let_def y_def by simp
  have step: "of_nat c \<le> y" if M: "of_int M \<le> x / pow2 e" "of_nat c \<le> of_int M * pow2 e" for M
  proof -
    from M(1) pos have "M \<le> round_even (\<bar>x\<bar> / pow2 e)" by (simp add: round_even_ge)
    then have "(of_int M :: rat) \<le> of_int (round_even (\<bar>x\<bar> / pow2 e))"
      by (simp only: of_int_le_iff)
    then have "of_int M * pow2 e \<le> y"
      unfolding y_def using pow2_pos [of e] by (simp add: mult_right_mono)
    with M(2) show ?thesis by linarith
  qed
  have "of_nat c \<le> y"
  proof (cases "k \<le> 52")
    case True
    then have p: "pow2 e = 1 / 2 ^ (52 - k)"
      by (cases "k = 52") (simp_all add: pow2_def e_def nat_diff_distrib')
    have 1: "(of_int (int (c * 2 ^ (52 - k))) :: rat) \<le> x / pow2 e"
      using assms(2) by (simp add: p mult_right_mono)
    have 2: "(of_nat c :: rat) \<le> of_int (int (c * 2 ^ (52 - k))) * pow2 e"
      by (simp add: p)
    from 1 2 show ?thesis by (rule step)
  next
    case False
    then have p: "pow2 e = 2 ^ (k - 52)" by (simp add: pow2_def e_def nat_diff_distrib')
    have k: "k = 52 + (k - 52)" using False by simp
    have "(2::rat) ^ k = 2 ^ 52 * 2 ^ (k - 52)" by (subst k) (simp only: power_add)
    with lo have 1: "(of_int (2 ^ 52) :: rat) \<le> x / pow2 e"
      by (simp add: p pos_le_divide_eq)
    have "(of_nat c :: rat) \<le> of_nat (2 ^ 52)" using assms(3) by (simp only: of_nat_le_iff)
    then have c: "(of_nat c :: rat) \<le> 2 ^ 52" by (simp only: of_nat_power of_nat_numeral)
    have "(1::rat) \<le> 2 ^ (k - 52)" by simp
    then have "(2::rat) ^ 52 * 1 \<le> 2 ^ 52 * 2 ^ (k - 52)" by (intro mult_left_mono) simp_all
    with c have "(of_nat c :: rat) \<le> 2 ^ 52 * 2 ^ (k - 52)" by linarith
    then have 2: "(of_nat c :: rat) \<le> of_int (2 ^ 52) * pow2 e" by (simp add: p)
    from 1 2 show ?thesis by (rule step)
  qed
  with rd show ?thesis by auto
qed

text \<open>
  In the binade of \<open>x\<close>, a value more than half a step above the multiple \<open>m\<close> rounds to
  the multiple \<open>m + 1\<close> at least.
\<close>

lemma round_double_gt:
  assumes "2 ^ k \<le> x" and "x < 2 ^ Suc k"
    and "of_int m + 1 / 2 < x / pow2 (int k - 52)"
  shows "round_double x = PosInfinity
       \<or> (\<exists>y. round_double x = Finite y \<and> of_int (m + 1) * pow2 (int k - 52) \<le> y)"
proof -
  have pos: "0 < x" using assms(1) by (meson less_le_trans zero_less_numeral zero_less_power)
  have il: "ilog2 \<bar>x\<bar> = int k" using pos assms(1,2) by (simp add: ilog2_unique)
  have e: "max (ilog2 \<bar>x\<bar> - 52) (- 1074) = int k - 52" using il by simp
  define y where "y = of_int (round_even (\<bar>x\<bar> / pow2 (int k - 52))) * pow2 (int k - 52)"
  have rd: "round_double x = (if 2 ^ 1024 \<le> y then PosInfinity else Finite y)"
    using pos unfolding round_double_def e Let_def y_def by simp
  have "m + 1 \<le> round_even (\<bar>x\<bar> / pow2 (int k - 52))"
    using pos assms(3) by (simp add: round_even_gt)
  then have "(of_int (m + 1) :: rat) \<le> of_int (round_even (\<bar>x\<bar> / pow2 (int k - 52)))"
    by (simp only: of_int_le_iff)
  then have "of_int (m + 1) * pow2 (int k - 52) \<le> y"
    unfolding y_def using pow2_pos [of "int k - 52"] by (simp add: mult_right_mono)
  with rd show ?thesis by auto
qed

section \<open>Marks read as doubles\<close>

lemma round_double_numeral_8: "round_double 8 = Finite 8"
  using round_double_of_nat [of 8] by simp

lemma round_double_numeral_11: "round_double 11 = Finite 11"
  using round_double_of_nat [of 11] by simp

lemma round_double_numeral_30: "round_double 30 = Finite 30"
  using round_double_of_nat [of 30] by simp

text \<open>The numeral 10.0000000000000001 is read as the double 10.\<close>

lemma round_double_near_10: "round_double near_ten = Finite 10"
proof -
  have p: "pow2 (- 49) = 1 / 2 ^ 49" by (simp add: pow2_def)
  have "round_double (10 + 1 / 10 ^ 16) = Finite (of_int 5629499534213120 * pow2 (int 3 - 52))"
    by (rule round_double_nearest) (simp_all add: p)
  then show ?thesis by (simp add: p near_ten_def)
qed

lemma floor_near_10: "\<lfloor>near_ten\<rfloor> = 10"
  unfolding near_ten_def by (rule floor_unique) simp_all

lemma near_ten_above: "10 < near_ten"
  by (simp add: near_ten_def)

lemma above_10_rounds_above:
  assumes "10 + 1 / 2 ^ 50 < a"
  shows "number_gt (round_double a) 10"
proof (cases "a < 16")
  case True
  have p: "pow2 (- 49) = 1 / 2 ^ 49" by (simp add: pow2_def)
  have "round_double a = PosInfinity
      \<or> (\<exists>y. round_double a = Finite y \<and> of_int (5629499534213120 + 1) * pow2 (int 3 - 52) \<le> y)"
  proof (rule round_double_gt)
    show "2 ^ 3 \<le> a" using assms by simp
    show "a < 2 ^ Suc 3" using True by simp
    show "of_int 5629499534213120 + 1 / 2 < a / pow2 (int 3 - 52)"
      using assms by (simp add: p)
  qed
  then show ?thesis by (auto simp: p)
next
  case False
  then have "1 \<le> a" "of_nat 16 \<le> a" by simp_all
  from round_double_ge [OF this] show ?thesis by auto
qed

lemma above_40_rounds_above:
  assumes "40 + 1 / 2 ^ 48 < b"
  shows "number_gt (round_double b) 40"
proof (cases "b < 64")
  case True
  have p: "pow2 (- 47) = 1 / 2 ^ 47" by (simp add: pow2_def)
  have "round_double b = PosInfinity
      \<or> (\<exists>y. round_double b = Finite y \<and> of_int (5629499534213120 + 1) * pow2 (int 5 - 52) \<le> y)"
  proof (rule round_double_gt)
    show "2 ^ 5 \<le> b" using assms by simp
    show "b < 2 ^ Suc 5" using True by simp
    show "of_int 5629499534213120 + 1 / 2 < b / pow2 (int 5 - 52)"
      using assms by (simp add: p)
  qed
  then show ?thesis by (auto simp: p)
next
  case False
  then have "1 \<le> b" "of_nat 64 \<le> b" by simp_all
  from round_double_ge [OF this] show ?thesis by auto
qed

lemma below_minus_1_rounds_below:
  assumes "a \<le> - 1"
  shows "number_lt (round_double a) 0"
proof -
  have "1 \<le> - a" "of_nat 1 \<le> - a" using assms by simp_all
  from round_double_ge [OF this]
  have "round_double (- a) = PosInfinity \<or> (\<exists>y. round_double (- a) = Finite y \<and> 1 \<le> y)"
    by simp
  moreover have "round_double a = number_negate (round_double (- a))"
    using round_double_minus [of "- a"] by simp
  ultimately show ?thesis by auto
qed

section \<open>Sums and means of doubles\<close>

lemma sum_whole_nonneg:
  assumes "\<forall>a \<in> set xs. \<exists>k::nat. att_percentage a = of_nat k"
  shows "\<exists>t::nat. sum_list (map att_percentage xs) = of_nat t"
  using assms
proof (induction xs)
  case Nil
  have "sum_list (map att_percentage []) = (of_nat 0 :: rat)" by simp
  then show ?case by blast
next
  case (Cons a xs)
  then obtain k t :: nat where "att_percentage a = of_nat k"
    "sum_list (map att_percentage xs) = of_nat t" by auto
  then have "sum_list (map att_percentage (a # xs)) = of_nat (k + t)" by simp
  then show ?case by blast
qed

text \<open>Whole-number percentages are added without rounding while the total stays below 2^53.\<close>

lemma double_sum_whole:
  assumes "\<forall>a \<in> set xs. \<exists>k::nat. att_percentage a = of_nat k"
    and "of_nat s + sum_list (map att_percentage xs) < 2 ^ 53"
  shows "foldl (\<lambda>sum a. number_add sum (Finite (att_percentage a))) (Finite (of_nat s)) xs
           = Finite (of_nat s + sum_list (map att_percentage xs))"
  using assms
proof (induction xs arbitrary: s)
  case Nil
  then show ?case by simp
next
  case (Cons a xs)
  from Cons.prems(1) obtain k :: nat where k: "att_percentage a = of_nat k" by auto
  from Cons.prems(1) have all: "\<forall>a \<in> set xs. \<exists>k::nat. att_percentage a = of_nat k" by simp
  from sum_whole_nonneg [OF all] obtain t :: nat
    where t: "sum_list (map att_percentage xs) = of_nat t" by blast
  from Cons.prems(2) have "(of_nat (s + k + t) :: rat) < 2 ^ 53" by (simp add: k t)
  then have "(of_nat (s + k + t) :: rat) < of_nat (2 ^ 53)" by simp
  then have bound: "s + k + t < 2 ^ 53" by (simp only: of_nat_less_iff)
  then have "s + k < 2 ^ 53" by simp
  from round_double_of_nat [OF this]
  have step: "number_add (Finite (of_nat s)) (Finite (att_percentage a)) = Finite (of_nat (s + k))"
    by (simp add: k)
  have "of_nat (s + k) + sum_list (map att_percentage xs) < 2 ^ 53"
    using Cons.prems(2) by (simp add: k)
  from Cons.IH [OF all this] step show ?case by (simp add: k add.assoc)
qed

lemma double_mean_whole:
  assumes "\<forall>a \<in> set xs. \<exists>k::nat. att_percentage a = of_nat k"
    and "xs \<noteq> []" and "sum_list (map att_percentage xs) < 2 ^ 53"
  shows "double_mean xs = round_double (mean_percentage xs)"
proof -
  have "of_nat 0 + sum_list (map att_percentage xs) < 2 ^ 53" using assms(3) by simp
  from double_sum_whole [OF assms(1) this] assms(2)
  show ?thesis by (simp add: double_mean_def mean_percentage_def)
qed

lemma round_double_numeral_80: "round_double 80 = Finite 80"
  using round_double_of_nat [of 80] by simp

lemma double_mean_80_60_100: "double_mean [att 80, att 60, att 100] = Finite 80"
proof -
  have w: "\<forall>a \<in> set [att 80, att 60, att 100]. \<exists>k::nat. att_percentage a = of_nat k"
  proof -
    have "att_percentage (att 80) = of_nat 80" "att_percentage (att 60) = of_nat 60"
      "att_percentage (att 100) = of_nat 100" by (simp_all add: att_def)
    then show ?thesis by (metis insert_iff list.set(2) set_ConsD list.set(1) empty_iff)
  qed
  have m: "mean_percentage [att 80, att 60, att 100] = 80"
    by (simp add: mean_percentage_def att_def)
  have s: "sum_list (map att_percentage [att 80, att 60, att 100]) < 2 ^ 53"
    by (simp add: att_def)
  from double_mean_whole [OF w _ s] show ?thesis by (simp add: m round_double_numeral_80)
qed

subsection \<open>The percentages 91.67 and 83.34\<close>

lemma pow2_m46: "pow2 (- 46) = 1 / 2 ^ 46"
  by (simp add: pow2_def)

lemma pow2_m45: "pow2 (- 45) = 1 / 2 ^ 45"
  by (simp add: pow2_def)

lemma pct_91_67_read: "round_double (9167 / 100) = Finite pct_91_67"
proof -
  have "round_double (9167 / 100) = Finite (of_int 6450702778766459 * pow2 (int 6 - 52))"
    by (rule round_double_nearest) (simp_all add: pow2_m46)
  then show ?thesis by (simp add: pow2_m46 pct_91_67_def)
qed

lemma pct_83_34_read: "round_double (8334 / 100) = Finite pct_83_34"
proof -
  have "round_double (8334 / 100) = Finite (of_int 5864531139766518 * pow2 (int 6 - 52))"
    by (rule round_double_nearest) (simp_all add: pow2_m46)
  then show ?thesis by (simp add: pow2_m46 pct_83_34_def)
qed

lemma pct_91_67_double: "round_double (0 + pct_91_67) = Finite pct_91_67"
proof -
  have "round_double (6450702778766459 / 2 ^ 46)
          = Finite (of_int 6450702778766459 * pow2 (int 6 - 52))"
    by (rule round_double_nearest) (simp_all add: pow2_m46)
  then show ?thesis by (simp add: pow2_m46 pct_91_67_def)
qed

lemma sum_175_01: "round_double (pct_91_67 + pct_83_34) = Finite double_175_01"
proof -
  have f: "\<lfloor>12315233918532977 / 2 :: rat\<rfloor> = 6157616959266488"
    by (rule floor_unique) simp_all
  have r: "round_even (12315233918532977 / 2) = 6157616959266488"
    by (simp add: round_even_def Let_def f)
  have "round_double (6450702778766459 / 2 ^ 46 + 5864531139766518 / 2 ^ 46)
          = Finite (of_int 6157616959266488 * pow2 (int 7 - 52))"
  proof (rule round_double_binade)
    show "round_even ((6450702778766459 / 2 ^ 46 + 5864531139766518 / 2 ^ 46)
                        / pow2 (int 7 - 52)) = 6157616959266488"
      by (simp add: pow2_m45 r)
  qed (simp_all add: pow2_m45)
  then show ?thesis by (simp add: pow2_m45 pct_91_67_def pct_83_34_def double_175_01_def)
qed

lemma mean_87_505: "round_double (double_175_01 / of_nat 2) = Finite double_87_505"
proof -
  have "round_double (6157616959266488 / 2 ^ 46)
          = Finite (of_int 6157616959266488 * pow2 (int 6 - 52))"
    by (rule round_double_nearest) (simp_all add: pow2_m46)
  then show ?thesis by (simp add: pow2_m46 double_175_01_def double_87_505_def)
qed

lemma digits_8750: "digits 8750 = ''8750''"
  by (simp add: digits.simps [of 8750] digits.simps [of 875] digits.simps [of 87]
        digits.simps [of 8] digit_char_def)

lemma toFixed_87_505: "toFixed_finite 2 double_87_505 = Some ''87.50''"
proof -
  have "\<lfloor>\<bar>double_87_505\<bar> * 100 + 1 / 2\<rfloor> = 8750"
    unfolding double_87_505_def by (rule floor_unique) simp_all
  then have n: "nat \<lfloor>\<bar>double_87_505\<bar> * 100 + 1 / 2\<rfloor> = 8750" by simp
  have b: "\<bar>double_87_505\<bar> < 10 ^ 21" "\<not> double_87_505 < 0"
    by (simp_all add: double_87_505_def)
  show ?thesis unfolding toFixed_2_unfold n using b by (simp add: digits_8750 pad_zeros_def)
qed

lemma avgAttendance_91_67_83_34:
  "avgAttendance [att pct_91_67, att pct_83_34] = Some (JSString ''87.50'')"
  using pct_91_67_double sum_175_01 mean_87_505 toFixed_87_505
  by (simp add: avgAttendance_def att_def)

lemma decimal_value_87_50: "decimal_value ''87.50'' = 8750 / 100"
  by (simp add: decimal_value_def nat_of_digits_def digit_value_def Let_def)

section \<open>JSON texts\<close>

lemma hex_cases:
  assumes "d < (16::nat)"
  obtains "d = 0" | "d = 1" | "d = 2" | "d = 3" | "d = 4" | "d = 5" | "d = 6" | "d = 7"
        | "d = 8" | "d = 9" | "d = 10" | "d = 11" | "d = 12" | "d = 13" | "d = 14" | "d = 15"
  using assms by atomize_elim presburger

lemma hex_value_hex_digit: "d < 16 \<Longrightarrow> hex_value (hex_digit d) = Some d"
  by (erule hex_cases) (simp_all add: hex_value_def hex_digit_def)


text \<open>Reading back one escaped character, and a quoted string.\<close>

lemma tokens_control:
  assumes "(of_char c :: nat) < 32"
  shows "tokens (InString acc)
           ([backslash, CHR ''u'', CHR ''0'', CHR ''0'',
             hex_digit (of_char c div 16), hex_digit (of_char c mod 16)] @ rest)
         = tokens (InString (c # acc)) rest"
proof -
  define n :: nat where "n = of_char c"
  have n: "n < 32" using assms by (simp add: n_def)
  have h1: "hex_value (hex_digit (n div 16)) = Some (n div 16)"
    using n by (intro hex_value_hex_digit) simp
  have h2: "hex_value (hex_digit (n mod 16)) = Some (n mod 16)"
    by (intro hex_value_hex_digit) simp
  have z: "hex_value (CHR ''0'') = Some 0" by (simp add: hex_value_def)
  have v: "16 * (n div 16) + n mod 16 = n" by simp
  have c: "char_of n = c" by (simp add: n_def)
  have lt: "n < 256" using n by simp
  show ?thesis
    unfolding n_def [symmetric]
    by (simp add: quote_def backslash_def z h1 h2 v c lt)
qed

lemma tokens_escape_char:
  "tokens (InString acc) (escape_char c @ rest) = tokens (InString (c # acc)) rest"
proof (cases "(of_char c :: nat) < 32")
  case True
  consider "c = CHR 0x08" | "c = CHR 0x09" | "c = CHR 0x0A" | "c = CHR 0x0C" | "c = CHR 0x0D"
    | "c \<noteq> CHR 0x08" "c \<noteq> CHR 0x09" "c \<noteq> CHR 0x0A" "c \<noteq> CHR 0x0C" "c \<noteq> CHR 0x0D"
    by blast
  then show ?thesis
  proof cases
    case 6
    have nq: "c \<noteq> quote" "c \<noteq> backslash" using True by (auto simp: quote_def backslash_def)
    have "escape_char c = [backslash, CHR ''u'', CHR ''0'', CHR ''0'',
             hex_digit (of_char c div 16), hex_digit (of_char c mod 16)]"
      using 6 nq True by (simp add: escape_char_def)
    then show ?thesis using tokens_control [OF True] by simp
  qed (simp_all add: escape_char_def quote_def backslash_def)
next
  case False
  then have nc: "c \<noteq> CHR 0x08" "c \<noteq> CHR 0x09" "c \<noteq> CHR 0x0A" "c \<noteq> CHR 0x0C" "c \<noteq> CHR 0x0D"
    by auto
  show ?thesis
  proof (cases "c = quote \<or> c = backslash")
    case True
    then show ?thesis using nc by (auto simp: escape_char_def quote_def backslash_def)
  next
    case False
    with \<open>\<not> (of_char c :: nat) < 32\<close> nc show ?thesis by (simp add: escape_char_def)
  qed
qed

lemma tokens_escaped:
  "tokens (InString acc) (concat (map escape_char s) @ quote # rest)
     = map_option ((#) (StringToken (rev acc @ s))) (tokens Between rest)"
proof (induction s arbitrary: acc)
  case Nil
  show ?case by simp
next
  case (Cons c s)
  have "tokens (InString acc) (concat (map escape_char (c # s)) @ quote # rest)
          = tokens (InString acc) (escape_char c @ (concat (map escape_char s) @ quote # rest))"
    by simp
  also have "\<dots> = tokens (InString (c # acc)) (concat (map escape_char s) @ quote # rest)"
    by (rule tokens_escape_char)
  also have "\<dots> = map_option ((#) (StringToken (rev (c # acc) @ s))) (tokens Between rest)"
    by (rule Cons.IH)
  finally show ?case by simp
qed

lemma tokens_quoted:
  "tokens Between (QuoteJSONString s @ rest)
     = map_option ((#) (StringToken s)) (tokens Between rest)"
  using tokens_escaped [of "[]" s rest]
  by (simp add: QuoteJSONString_def quote_def)

lemma tokens_member:
  "tokens Between (QuoteJSONString k @ CHR '':'' # QuoteJSONString v @ rest)
     = map_option (\<lambda>ts. StringToken k # Colon # StringToken v # ts) (tokens Between rest)"
  by (simp add: tokens_quoted quote_def option.map_comp comp_def)

lemma tokens_identity:
  "tokens Between (JSON_stringify u)
     = Some [LBrace,
             StringToken ''id'', Colon, StringToken (u_id u), Comma,
             StringToken ''name'', Colon, StringToken (u_name u), Comma,
             StringToken ''role'', Colon, StringToken (u_role u), Comma,
             StringToken ''email'', Colon, StringToken (u_email u), Comma,
             StringToken ''profile_pic'', Colon, StringToken (u_profile_pic u),
             RBrace]"
  by (simp add: JSON_stringify_def SerializeJSONObject_def properties_def tokens_member
        quote_def option.map_comp comp_def)

lemma JSON_round_trip: "JSON_parse (JSON_stringify u) = Inr u"
  by (simp add: JSON_parse_def tokens_identity object_of_tokens_def user_of_object_def
        get_property_def)

lemma JSON_stringify_nonempty: "JSON_stringify u \<noteq> []"
  by (simp add: JSON_stringify_def SerializeJSONObject_def)

section \<open>The properties\<close>

text \<open>
  C1. For every integer total in [0,50] the grade calculator returns exactly one letter of
  A+, A, B+, B, C, F, by the bands: 45 and above is A+, 40 to 44 is A, 35 to 39 is B+,
  30 to 34 is B, 25 to 29 is C, anything below 25 is F. In particular 45 gives A+,
  44 gives A and 24 gives F.
\<close>

theorem calculateGrade_bands:
  "\<forall>t \<in> {0..50}.
      calculateGrade (JInt t) \<in> {''A+'', ''A'', ''B+'', ''B'', ''C'', ''F''}
    \<and> (calculateGrade (JInt t) = ''A+'' \<longleftrightarrow> 45 \<le> t)
    \<and> (calculateGrade (JInt t) = ''A'' \<longleftrightarrow> 40 \<le> t \<and> t < 45)
    \<and> (calculateGrade (JInt t) = ''B+'' \<longleftrightarrow> 35 \<le> t \<and> t < 40)
    \<and> (calculateGrade (JInt t) = ''B'' \<longleftrightarrow> 30 \<le> t \<and> t < 35)
    \<and> (calculateGrade (JInt t) = ''C'' \<longleftrightarrow> 25 \<le> t \<and> t < 30)
    \<and> (calculateGrade (JInt t) = ''F'' \<longleftrightarrow> t < 25)"
  by (simp add: calculateGrade_def)

theorem calculateGrade_bands_witness:
  "(45::int) \<in> {0..50} \<and> (44::int) \<in> {0..50} \<and> (24::int) \<in> {0..50}
   \<and> calculateGrade (JInt 45) = ''A+''
   \<and> calculateGrade (JInt 44) = ''A''
   \<and> calculateGrade (JInt 24) = ''F''"
proof -
  have "calculateGrade (JInt 45) = ''A+''"
    using calculateGrade_bands [rule_format, of 45] by simp
  moreover have "calculateGrade (JInt 44) = ''A''"
    using calculateGrade_bands [rule_format, of 44] by simp
  moreover have "calculateGrade (JInt 24) = ''F''"
    using calculateGrade_bands [rule_format, of 24] by simp
  ultimately show ?thesis by simp
qed

text \<open>
  C2, as stated: every submission whose part-A marks are outside [0,10] is answered
  with a validation error and no request. The numeral 10.0000000000000001 is above 10,
  but JavaScript reads it as the double 10: the check passes and the grade is sent with
  10 marks for part A.
\<close>

theorem handleUpdateGrade_near_ten_counterexample:
  "part_a_marks (t_gradeForm near_ten_state) = Numeric near_ten
   \<and> 10 < near_ten \<and> near_ten = 10 + 1 / 10 ^ 16
   \<and> handleUpdateGrade kumar (Resolved ()) empty_round near_ten_state
       = (near_ten_state \<lparr> t_showGradeDialog := False \<rparr>,
          [Request (PUT ''/grades/G1''
                      (GradeBody maths_grade (JInt 10) (JInt 30) (JInt 40) ''A'')),
           toast_success ''Grade updated successfully!'',
           Request (GET ''/grades''),
           Request (GET ''/schedules/teacher/T001''),
           Request (GET ''/complaints'')])"
  by (simp add: handleUpdateGrade_def near_ten_state_def editing_state_def teacher_init_def
        Let_def js_lt_def js_gt_def round_double_near_10 round_double_numeral_30
        floor_near_10 near_ten_above calculateGrade_def maths_grade_def
        teacher_fetchData_def empty_round_def kumar_def)
    (simp add: near_ten_def)

text \<open>
  C2, amended. Whenever the part-A marks of the grade form are a numeral that
  JavaScript reads as a number outside [0,10] (the double nearest to the numeral's
  value), \<open>handleUpdateGrade\<close> reports the part-A validation error and returns; whenever
  the part-B marks are a numeral read as a number outside [0,40], it reports a
  validation error and returns. In both cases no request is made, whatever the Gateway
  would answer, and the state is left as it was: the marks are rejected, not clamped.
  Every part-A numeral of value at most -1 or above 10 + 2^-50, and every part-B
  numeral of value at most -1 or above 40 + 2^-48, is read as such a number. (What the
  handler does with an empty field is not part of this statement.)
\<close>

theorem handleUpdateGrade_rejects_out_of_range:
  "(part_a_marks (t_gradeForm st) = Numeric a \<and> number_outside (round_double a) 0 10 \<longrightarrow>
      handleUpdateGrade usr putRes res st
        = (st, [toast_error ''Part A marks must be between 0 and 10'']))
   \<and> (part_b_marks (t_gradeForm st) = Numeric b \<and> number_outside (round_double b) 0 40 \<longrightarrow>
      fst (handleUpdateGrade usr putRes res st) = st
      \<and> requests_of (snd (handleUpdateGrade usr putRes res st)) = []
      \<and> (snd (handleUpdateGrade usr putRes res st)
            = [toast_error ''Part A marks must be between 0 and 10'']
         \<or> snd (handleUpdateGrade usr putRes res st)
            = [toast_error ''Part B marks must be between 0 and 40'']))
   \<and> (a \<le> - 1 \<or> 10 + 1 / 2 ^ 50 < a \<longrightarrow> number_outside (round_double a) 0 10)
   \<and> (b \<le> - 1 \<or> 40 + 1 / 2 ^ 48 < b \<longrightarrow> number_outside (round_double b) 0 40)"
proof (intro conjI impI)
  assume "part_a_marks (t_gradeForm st) = Numeric a \<and> number_outside (round_double a) 0 10"
  then show "handleUpdateGrade usr putRes res st
        = (st, [toast_error ''Part A marks must be between 0 and 10''])"
    by (simp add: handleUpdateGrade_def Let_def js_lt_def js_gt_def number_outside_def)
next
  assume h: "part_b_marks (t_gradeForm st) = Numeric b \<and> number_outside (round_double b) 0 40"
  then have b: "js_lt (part_b_marks (t_gradeForm st)) 0 \<or> js_gt (part_b_marks (t_gradeForm st)) 40"
    by (simp add: js_lt_def js_gt_def number_outside_def)
  have r: "handleUpdateGrade usr putRes res st
             = (st, [toast_error ''Part A marks must be between 0 and 10''])
         \<or> handleUpdateGrade usr putRes res st
             = (st, [toast_error ''Part B marks must be between 0 and 40''])"
    using b by (simp add: handleUpdateGrade_def Let_def)
  from r show "fst (handleUpdateGrade usr putRes res st) = st" by auto
  from r show "requests_of (snd (handleUpdateGrade usr putRes res st)) = []"
    by (auto simp: requests_of_def)
  from r show "snd (handleUpdateGrade usr putRes res st)
            = [toast_error ''Part A marks must be between 0 and 10'']
         \<or> snd (handleUpdateGrade usr putRes res st)
            = [toast_error ''Part B marks must be between 0 and 40'']"
    by auto
next
  assume "a \<le> - 1 \<or> 10 + 1 / 2 ^ 50 < a"
  then show "number_outside (round_double a) 0 10"
    using below_minus_1_rounds_below [of a] above_10_rounds_above [of a]
    by (auto simp: number_outside_def)
next
  assume "b \<le> - 1 \<or> 40 + 1 / 2 ^ 48 < b"
  then show "number_outside (round_double b) 0 40"
    using below_minus_1_rounds_below [of b] above_40_rounds_above [of b]
    by (auto simp: number_outside_def)
qed

theorem handleUpdateGrade_rejects_out_of_range_witness:
  "part_a_marks (t_gradeForm editing_state) = Numeric 11
   \<and> (10::rat) + 1 / 2 ^ 50 < 11
   \<and> number_outside (round_double 11) 0 10
   \<and> handleUpdateGrade kumar (Resolved ()) empty_round editing_state
        = (editing_state, [toast_error ''Part A marks must be between 0 and 10''])"
proof -
  have f: "part_a_marks (t_gradeForm editing_state) = Numeric 11"
    by (simp add: editing_state_def)
  have g: "(10::rat) + 1 / 2 ^ 50 < 11" by simp
  note t = handleUpdateGrade_rejects_out_of_range
             [where st = editing_state and a = 11 and usr = kumar and putRes = "Resolved ()"
                and res = empty_round]
  from t g have o: "number_outside (round_double 11) 0 10" by blast
  with t f have "handleUpdateGrade kumar (Resolved ()) empty_round editing_state
        = (editing_state, [toast_error ''Part A marks must be between 0 and 10''])"
    by blast
  with f g o show ?thesis by simp
qed

text \<open>
  C3, as stated: the displayed average is the arithmetic mean of the percentages rounded
  to two decimals. For the percentages 91.67 and 83.34 (the doubles nearest to them) the
  sum is rounded down to a double, and the display is 87.50, while the mean of the two
  fields is above 87.505 and rounds to 87.51.
\<close>

theorem avgAttendance_rounding_counterexample:
  "round_double (9167 / 100) = Finite pct_91_67
   \<and> round_double (8334 / 100) = Finite pct_83_34
   \<and> avgAttendance [att pct_91_67, att pct_83_34] = Some (JSString ''87.50'')
   \<and> decimal_value ''87.50'' = 8750 / 100
   \<and> 1 / 200 < \<bar>decimal_value ''87.50'' - mean_percentage [att pct_91_67, att pct_83_34]\<bar>
   \<and> \<bar>8751 / 100 - mean_percentage [att pct_91_67, att pct_83_34]\<bar> < 1 / 200"
proof -
  have m: "mean_percentage [att pct_91_67, att pct_83_34] = 12315233918532977 / 2 ^ 47"
    by (simp add: mean_percentage_def att_def pct_91_67_def pct_83_34_def)
  show ?thesis
    unfolding m decimal_value_87_50
    using pct_91_67_read pct_83_34_read avgAttendance_91_67_83_34 by simp
qed

text \<open>
  C3, amended. The displayed average attendance is the number 0 for an empty list of
  attendance records. For a non-empty list it is the mean as double-precision
  arithmetic gives it (the percentages added one by one, every sum and the quotient by
  the count rounded to the nearest double), rounded to two decimals: a numeral with two
  digits after the point whose value is a multiple of 1/100 nearest to that double
  (while the double is below the 10^21 from which \<open>toFixed\<close> changes its notation). For
  whole-number percentages with a total below 2^53 the sums are exact, and that double
  is the one nearest to the arithmetic mean. For the percentages 80, 60 and 100 the
  display is 80.00.
\<close>

theorem avgAttendance_double_mean:
  "avgAttendance [] = Some (JSNumber 0)
   \<and> (xs \<noteq> [] \<and> double_mean xs = Finite m \<and> \<bar>m\<bar> < 10 ^ 21 \<longrightarrow>
        (\<exists>s. avgAttendance xs = Some (JSString s)
           \<and> length (decimals s) = 2
           \<and> (\<exists>k::int. decimal_value s = of_int k / 100)
           \<and> \<bar>decimal_value s - m\<bar> \<le> 1 / 200))
   \<and> (xs \<noteq> [] \<and> (\<forall>a \<in> set xs. \<exists>k::nat. att_percentage a = of_nat k)
        \<and> sum_list (map att_percentage xs) < 2 ^ 53 \<longrightarrow>
        double_mean xs = round_double (mean_percentage xs))
   \<and> avgAttendance [att 80, att 60, att 100] = Some (JSString ''80.00'')"
proof (intro conjI impI)
  show "avgAttendance [] = Some (JSNumber 0)" by (simp add: avgAttendance_def)
next
  assume h: "xs \<noteq> [] \<and> double_mean xs = Finite m \<and> \<bar>m\<bar> < 10 ^ 21"
  then have avg: "avgAttendance xs = map_option JSString (toFixed_finite 2 m)"
    by (simp add: avgAttendance_def double_mean_def)
  from toFixed_2_value [of m] h obtain s where
    s: "toFixed_finite 2 m = Some s"
       "decimal_value s = (if m < 0 then - 1 else 1)
          * of_nat (nat \<lfloor>\<bar>m\<bar> * 100 + 1 / 2\<rfloor>) / 100"
       "\<bar>decimal_value s - m\<bar> \<le> 1 / 200"
       "length (decimals s) = 2"
    by blast
  have "\<exists>k::int. decimal_value s = of_int k / 100"
  proof (cases "m < 0")
    case True
    with s(2) have "decimal_value s = of_int (- int (nat \<lfloor>\<bar>m\<bar> * 100 + 1 / 2\<rfloor>)) / 100"
      by simp
    then show ?thesis by blast
  next
    case False
    with s(2) have "decimal_value s = of_int (int (nat \<lfloor>\<bar>m\<bar> * 100 + 1 / 2\<rfloor>)) / 100"
      by simp
    then show ?thesis by blast
  qed
  with avg s show "\<exists>s. avgAttendance xs = Some (JSString s)
           \<and> length (decimals s) = 2
           \<and> (\<exists>k::int. decimal_value s = of_int k / 100)
           \<and> \<bar>decimal_value s - m\<bar> \<le> 1 / 200"
    by simp
next
  assume "xs \<noteq> [] \<and> (\<forall>a \<in> set xs. \<exists>k::nat. att_percentage a = of_nat k)
        \<and> sum_list (map att_percentage xs) < 2 ^ 53"
  then show "double_mean xs = round_double (mean_percentage xs)"
    by (simp add: double_mean_whole)
next
  have "avgAttendance [att 80, att 60, att 100]
          = map_option JSString (toFixed 2 (double_mean [att 80, att 60, att 100]))"
    by (simp add: avgAttendance_def double_mean_def)
  then show "avgAttendance [att 80, att 60, att 100] = Some (JSString ''80.00'')"
    by (simp add: double_mean_80_60_100 toFixed_2_80)
qed

theorem avgAttendance_double_mean_witness:
  "[att pct_91_67, att pct_83_34] \<noteq> []
   \<and> double_mean [att pct_91_67, att pct_83_34] = Finite double_87_505
   \<and> \<bar>double_87_505\<bar> < 10 ^ 21
   \<and> (\<exists>s. avgAttendance [att pct_91_67, att pct_83_34] = Some (JSString s)
          \<and> length (decimals s) = 2
          \<and> \<bar>decimal_value s - double_87_505\<bar> \<le> 1 / 200)"
proof -
  have d: "double_mean [att pct_91_67, att pct_83_34] = Finite double_87_505"
    using pct_91_67_double sum_175_01 mean_87_505 by (simp add: double_mean_def att_def)
  have b: "\<bar>double_87_505\<bar> < 10 ^ 21" by (simp add: double_87_505_def)
  have n: "[att pct_91_67, att pct_83_34] \<noteq> []" by simp
  from avgAttendance_double_mean [of "[att pct_91_67, att pct_83_34]" double_87_505] n d b
  have "\<exists>s. avgAttendance [att pct_91_67, att pct_83_34] = Some (JSString s)
           \<and> length (decimals s) = 2
           \<and> (\<exists>k::int. decimal_value s = of_int k / 100)
           \<and> \<bar>decimal_value s - double_87_505\<bar> \<le> 1 / 200"
    by blast
  then show ?thesis using n d b by blast
qed

text \<open>
  C4. For every mutation action of the three dashboards, when the Gateway call is
  rejected the handler leaves the component's state exactly as it was (the dialog flags,
  the form values and the fetched collections included) and reports the error: its
  effects end with an error toast and contain no success toast.
\<close>

theorem mutation_failure_keeps_state:
  "failure_preserves ts (handleUpdateGrade usr Rejected tres ts)
   \<and> failure_preserves ts (teacher_handleResolveComplaint usr answer Rejected tres cid ts)
   \<and> failure_preserves ss (handleRegisterEvent usr Rejected sres eid ss)
   \<and> failure_preserves ss (handleVoteComplaint usr Rejected sres cid ss)
   \<and> failure_preserves ss (handleSubmitComplaint usr now today Rejected sres ss)
   \<and> failure_preserves ss (student_resetDemoData usr Rejected sres ss)
   \<and> failure_preserves as (handleCreateEvent now Rejected ares as)
   \<and> failure_preserves as (handleCreateNotice usr now today Rejected ares as)
   \<and> failure_preserves as (handleCreateUser Rejected ares as)
   \<and> failure_preserves as (handleDeleteUser confirmed Rejected ares uid as)
   \<and> failure_preserves as (handleDeleteNotice Rejected ares nid as)
   \<and> failure_preserves as (admin_handleResolveComplaint answer Rejected ares cid as)
   \<and> failure_preserves as (handleWaiveAttendance Rejected ares as)
   \<and> failure_preserves as (admin_resetDemoData Rejected ares as)"
proof (intro conjI)
  show "failure_preserves ts (handleUpdateGrade usr Rejected tres ts)"
    by (simp add: failure_preserves_def handleUpdateGrade_def Let_def reports_error_def
          requests_of_def split: option.split)
  show "failure_preserves ts (teacher_handleResolveComplaint usr answer Rejected tres cid ts)"
    by (simp add: failure_preserves_def teacher_handleResolveComplaint_def Let_def
          reports_error_def requests_of_def split: option.split)
  show "failure_preserves ss (handleRegisterEvent usr Rejected sres eid ss)"
    by (simp add: failure_preserves_def handleRegisterEvent_def Let_def reports_error_def)
  show "failure_preserves ss (handleVoteComplaint usr Rejected sres cid ss)"
    by (simp add: failure_preserves_def handleVoteComplaint_def Let_def reports_error_def)
  show "failure_preserves ss (handleSubmitComplaint usr now today Rejected sres ss)"
    by (simp add: failure_preserves_def handleSubmitComplaint_def Let_def reports_error_def
          requests_of_def)
  show "failure_preserves ss (student_resetDemoData usr Rejected sres ss)"
    by (simp add: failure_preserves_def student_resetDemoData_def Let_def reports_error_def)
  show "failure_preserves as (handleCreateEvent now Rejected ares as)"
    by (simp add: failure_preserves_def handleCreateEvent_def Let_def reports_error_def
          requests_of_def)
  show "failure_preserves as (handleCreateNotice usr now today Rejected ares as)"
    by (simp add: failure_preserves_def handleCreateNotice_def Let_def reports_error_def
          requests_of_def)
  show "failure_preserves as (handleCreateUser Rejected ares as)"
    by (simp add: failure_preserves_def handleCreateUser_def Let_def reports_error_def
          requests_of_def)
  show "failure_preserves as (handleDeleteUser confirmed Rejected ares uid as)"
    by (simp add: failure_preserves_def handleDeleteUser_def Let_def reports_error_def
          requests_of_def)
  show "failure_preserves as (handleDeleteNotice Rejected ares nid as)"
    by (simp add: failure_preserves_def handleDeleteNotice_def Let_def reports_error_def)
  show "failure_preserves as (admin_handleResolveComplaint answer Rejected ares cid as)"
    by (simp add: failure_preserves_def admin_handleResolveComplaint_def Let_def
          reports_error_def requests_of_def split: option.split)
  show "failure_preserves as (handleWaiveAttendance Rejected ares as)"
    by (simp add: failure_preserves_def handleWaiveAttendance_def Let_def reports_error_def
          requests_of_def)
  show "failure_preserves as (admin_resetDemoData Rejected ares as)"
    by (simp add: failure_preserves_def admin_resetDemoData_def Let_def reports_error_def)
qed

theorem mutation_failure_keeps_state_witness:
  "requests_of (snd (handleSubmitComplaint alice 0 ''2025-01-14'' Rejected grades_down
                       complaining_state)) \<noteq> []
   \<and> fst (handleSubmitComplaint alice 0 ''2025-01-14'' Rejected grades_down complaining_state)
       = complaining_state
   \<and> reports_error (snd (handleSubmitComplaint alice 0 ''2025-01-14'' Rejected grades_down
                            complaining_state))"
proof -
  have made: "requests_of (snd (handleSubmitComplaint alice 0 ''2025-01-14'' Rejected
                                  grades_down complaining_state)) \<noteq> []"
    by (simp add: handleSubmitComplaint_def complaining_state_def Let_def requests_of_def)
  have "failure_preserves complaining_state
          (handleSubmitComplaint alice 0 ''2025-01-14'' Rejected grades_down complaining_state)"
    using mutation_failure_keeps_state
            [where ss = complaining_state and usr = alice and now = 0
               and today = "''2025-01-14''" and sres = grades_down]
    by blast
  with made show ?thesis by (simp add: failure_preserves_def)
qed



text \<open>
  C6. For every session state and each of the routes /student, /teacher and /admin, the
  route's dashboard is rendered, for the session's user, if and only if a session exists
  and its role is the route's role; otherwise the router redirects to /. An authenticated
  session at / is redirected to exactly one of the three dashboards, the one of its role
  when the role is student, teacher or admin.
\<close>

theorem route_guard:
  "((\<exists>u. Routes s ''/student'' = StudentDashboard u)
      \<longleftrightarrow> (\<exists>u. s = Some u \<and> u_role u = ''student''))
   \<and> ((\<exists>u. Routes s ''/teacher'' = TeacherDashboard u)
      \<longleftrightarrow> (\<exists>u. s = Some u \<and> u_role u = ''teacher''))
   \<and> ((\<exists>u. Routes s ''/admin'' = AdminDashboard u)
      \<longleftrightarrow> (\<exists>u. s = Some u \<and> u_role u = ''admin''))
   \<and> (\<forall>u. Routes s ''/student'' = StudentDashboard u
            \<or> Routes s ''/teacher'' = TeacherDashboard u
            \<or> Routes s ''/admin'' = AdminDashboard u \<longrightarrow> s = Some u)
   \<and> (\<not> (\<exists>u. s = Some u \<and> u_role u = ''student'') \<longrightarrow> Routes s ''/student'' = Navigate ''/'')
   \<and> (\<not> (\<exists>u. s = Some u \<and> u_role u = ''teacher'') \<longrightarrow> Routes s ''/teacher'' = Navigate ''/'')
   \<and> (\<not> (\<exists>u. s = Some u \<and> u_role u = ''admin'') \<longrightarrow> Routes s ''/admin'' = Navigate ''/'')
   \<and> (\<forall>u. s = Some u \<longrightarrow>
         (\<exists>!p. p \<in> {''/student'', ''/teacher'', ''/admin''} \<and> Routes s ''/'' = Navigate p)
       \<and> (u_role u \<in> {''student'', ''teacher'', ''admin''}
            \<longrightarrow> Routes s ''/'' = Navigate (''/'' @ u_role u)))"
  by (cases s) (auto simp: Routes_def)

theorem route_guard_witness:
  "Routes (Some alice) ''/student'' = StudentDashboard alice
   \<and> Routes (Some alice) ''/admin'' = Navigate ''/''
   \<and> Routes (Some alice) ''/'' = Navigate ''/student''
   \<and> Routes None ''/teacher'' = Navigate ''/''"
proof -
  have r: "u_role alice = ''student''" by (simp add: alice_def)
  from route_guard [of "Some alice"] r
  have "Routes (Some alice) ''/student'' = StudentDashboard alice"
    and "Routes (Some alice) ''/admin'' = Navigate ''/''"
    and "Routes (Some alice) ''/'' = Navigate ''/student''"
    by auto
  moreover from route_guard [of None] have "Routes None ''/teacher'' = Navigate ''/''"
    by simp
  ultimately show ?thesis by simp
qed

text \<open>
  C7. The teacher dashboard displays exactly the grade records, in the order fetched,
  whose subject code is the subject code of some schedule entry whose teacher id is the
  logged-in teacher's id; the teacher's subject list has no duplicates and consists of
  the subject codes of those schedule entries.
\<close>

theorem myGrades_join:
  "myGrades usr schedules grades =
      filter (\<lambda>g. \<exists>s \<in> set schedules.
                     sch_teacher_id s = u_id usr \<and> sch_subject_code s = g_subject_code g)
        grades
   \<and> distinct (mySubjects usr schedules)
   \<and> set (mySubjects usr schedules)
       = sch_subject_code ` {s \<in> set schedules. sch_teacher_id s = u_id usr}"
proof -
  have subj: "set (mySubjects usr schedules)
      = sch_subject_code ` {s \<in> set schedules. sch_teacher_id s = u_id usr}"
    by (simp add: mySubjects_def mySchedules_def new_Set_def new_Set_set)
  have dist: "distinct (mySubjects usr schedules)"
    by (simp add: mySubjects_def new_Set_def new_Set_distinct)
  have "myGrades usr schedules grades =
      filter (\<lambda>g. \<exists>s \<in> set schedules.
                     sch_teacher_id s = u_id usr \<and> sch_subject_code s = g_subject_code g)
        grades"
    unfolding myGrades_def array_includes_def subj
    by (rule filter_cong) (auto simp: image_iff Bex_def)
  with subj dist show ?thesis by simp
qed

text \<open>
  C8. The session identity round-trips through storage. For every identity, a record of
  strings, the JSON text that \<open>JSON.stringify\<close> gives for it is read back by
  \<open>JSON.parse\<close> as the same identity. After \<open>handleLogin\<close> the shell holds the
  identity, \<open>sessionStorage\<close> holds its text under the key \<open>user\<close>, and a reload
  restores exactly that identity; after \<open>handleLogout\<close> the shell holds no session,
  the key is gone, and a reload restores none.
\<close>

theorem session_round_trip:
  "JSON_parse (JSON_stringify u) = Inr u
   \<and> app_user (handleLogin u st) = Some u
   \<and> sessionStorage (handleLogin u st) ''user'' = Some (JSON_stringify u)
   \<and> restored_session (sessionStorage (handleLogin u st)) = Inr (Some u)
   \<and> app_user (handleLogout st') = None
   \<and> sessionStorage (handleLogout st') ''user'' = None
   \<and> restored_session (sessionStorage (handleLogout st')) = Inr None
   \<and> restored_session (sessionStorage (handleLogout (handleLogin u st))) = Inr None"
  by (simp add: handleLogin_def handleLogout_def restored_session_def useEffect_mount_def
        App_init_def JSON_round_trip JSON_stringify_nonempty)

text \<open>
  C9. In the events tab a register button is rendered for an event if and only if the
  event requires registration and its type is not holiday; no button is rendered for a
  holiday, whatever its registration flag. The button registers for the event of its card.
\<close>

theorem register_button_iff:
  "(register_button usr ev \<noteq> None
      \<longleftrightarrow> e_registration_required ev \<and> e_event_type ev \<noteq> ''holiday'')
   \<and> (e_event_type ev = ''holiday'' \<longrightarrow> register_button usr ev = None)
   \<and> (\<forall>b. register_button usr ev = Some b \<longrightarrow> b_onClick b = e_id ev)"
  by (simp add: register_button_def)

theorem register_button_iff_witness:
  "e_event_type holiday = ''holiday'' \<and> e_registration_required holiday
   \<and> register_button alice holiday = None"
proof -
  have h: "e_event_type holiday = ''holiday''" "e_registration_required holiday"
    by (simp_all add: holiday_def)
  from register_button_iff [of alice holiday] h show ?thesis by simp
qed

text \<open>
  C10. At the root route every authenticated session whose role is neither student nor
  teacher, whatever else the role is, is redirected to /admin: the root route does not
  test the role against admin.
\<close>

theorem root_route_default_admin:
  "u_role u \<noteq> ''student'' \<Longrightarrow> u_role u \<noteq> ''teacher'' \<Longrightarrow>
     Routes (Some u) ''/'' = Navigate ''/admin''"
  by (simp add: Routes_def)

theorem root_route_default_admin_witness:
  "u_role guest \<noteq> ''student'' \<and> u_role guest \<noteq> ''teacher'' \<and> u_role guest \<noteq> ''admin''
   \<and> Routes (Some guest) ''/'' = Navigate ''/admin''"
proof -
  have r: "u_role guest \<noteq> ''student''" "u_role guest \<noteq> ''teacher''" "u_role guest \<noteq> ''admin''"
    by (simp_all add: guest_def)
  from root_route_default_admin [OF r(1) r(2)] r show ?thesis by simp
qed

section \<open>Worked examples\<close>

lemma handleUpdateGrade_valid_example:
  "handleUpdateGrade kumar (Resolved ()) empty_round valid_state
     = (valid_state \<lparr> t_showGradeDialog := False \<rparr>,
        [Request (PUT ''/grades/G1'' (GradeBody maths_grade (JInt 8) (JInt 30) (JInt 38) ''B+'')),
         toast_success ''Grade updated successfully!'',
         Request (GET ''/grades''),
         Request (GET ''/schedules/teacher/T001''),
         Request (GET ''/complaints'')])"
  by (simp add: handleUpdateGrade_def valid_state_def editing_state_def teacher_init_def
        Let_def js_lt_def js_gt_def round_double_numeral_8 round_double_numeral_30
        calculateGrade_def maths_grade_def teacher_fetchData_def empty_round_def kumar_def)

lemma handleUpdateGrade_blank_example:
  "handleUpdateGrade kumar Rejected empty_round
       (valid_state \<lparr> t_gradeForm := \<lparr> part_a_marks = Blank, part_b_marks = Numeric 30 \<rparr> \<rparr>)
     = (valid_state \<lparr> t_gradeForm := \<lparr> part_a_marks = Blank, part_b_marks = Numeric 30 \<rparr> \<rparr>,
        [Request (PUT ''/grades/G1'' (GradeBody maths_grade JNaN (JInt 30) JNaN ''F'')),
         console_error ''Error updating grade:'',
         toast_error ''Failed to update grade''])"
  by (simp add: handleUpdateGrade_def valid_state_def editing_state_def teacher_init_def
        Let_def js_lt_def js_gt_def round_double_numeral_30 calculateGrade_def
        maths_grade_def)

lemma mySubjects_example:
  "mySubjects kumar sample_schedules = [''MA101'']
   \<and> myGrades kumar sample_schedules [maths_grade, physics_grade] = [maths_grade]"
  by (simp add: mySubjects_def myGrades_def mySchedules_def sample_schedules_def kumar_def
        new_Set_def Set_add_def array_includes_def maths_grade_def physics_grade_def)

lemma toFixed_third_example: "toFixed_finite 2 (1 / 3) = Some ''0.33''"
proof -
  have "\<lfloor>\<bar>1 / 3 :: rat\<bar> * 100 + 1 / 2\<rfloor> = 33" by (rule floor_unique) simp_all
  then have n: "nat \<lfloor>\<bar>1 / 3 :: rat\<bar> * 100 + 1 / 2\<rfloor> = 33" by simp
  have d: "digits 33 = ''33''"
    by (simp add: digits.simps [of 33] digits.simps [of 3] digit_char_def)
  show ?thesis unfolding toFixed_2_unfold n by (simp add: d pad_zeros_def)
qed

lemma toFixed_small_negative_example: "toFixed_finite 2 (- 1 / 1000) = Some ''-0.00''"
proof -
  have "\<lfloor>\<bar>- 1 / 1000 :: rat\<bar> * 100 + 1 / 2\<rfloor> = 0" by (rule floor_unique) simp_all
  then have n: "nat \<lfloor>\<bar>- 1 / 1000 :: rat\<bar> * 100 + 1 / 2\<rfloor> = 0" by simp
  have d: "digits 0 = ''0''"
    by (simp add: digits.simps [of 0] digit_char_def)
  show ?thesis unfolding toFixed_2_unfold n by (simp add: d pad_zeros_def)
qed

lemma guest_redirect_example:
  "Routes (Some guest) ''/'' = Navigate ''/admin''
   \<and> Routes (Some guest) ''/admin'' = Navigate ''/''"
  by (simp add: Routes_def guest_def)

lemma refetch_failure_example:
  "student_some_rejected grades_down
   \<and> s_grades (fst (student_fetchData alice grades_down loaded_state)) = [maths_grade]
   \<and> s_loading (fst (student_fetchData alice grades_down loaded_state)) = False"
  by (simp add: student_some_rejected_def grades_down_def student_fetchData_def Let_def
        loaded_state_def)

lemma JSON_stringify_alice_example:
  \<open>JSON_stringify alice
     = ''{"id":"S001","name":"Alice","role":"student","email":"alice@college.edu","profile_pic":""}''\<close>
  by (simp add: JSON_stringify_def SerializeJSONObject_def properties_def alice_def
        QuoteJSONString_def escape_char_def quote_def backslash_def)

lemma QuoteJSONString_example:
  "QuoteJSONString [CHR ''a'', CHR 0x22, CHR 0x0A, CHR 0x01, CHR 0x5C]
     = [CHR 0x22, CHR ''a'', CHR 0x5C, CHR 0x22, CHR 0x5C, CHR ''n'',
        CHR 0x5C, CHR ''u'', CHR ''0'', CHR ''0'', CHR ''0'', CHR ''1'', CHR 0x5C, CHR 0x5C,
        CHR 0x22]"
  by (simp add: QuoteJSONString_def escape_char_def quote_def backslash_def hex_digit_def)

lemma session_alice_example:
  "restored_session (sessionStorage (handleLogin alice (App_init Map.empty))) = Inr (Some alice)
   \<and> restored_session
        (sessionStorage (handleLogout (handleLogin alice (App_init Map.empty)))) = Inr None"
  by (simp add: handleLogin_def handleLogout_def restored_session_def useEffect_mount_def
        App_init_def JSON_round_trip JSON_stringify_nonempty)


end
